theory Spec2Isabelle
  imports Main "HOL-Library.Word"
begin

section \<open>The InsightOps logrus hook (insightops.go)\<close>

text \<open>
  A shallow embedding of \<^verbatim>\<open>insightops.go\<close>: the construction of the hook (\<^verbatim>\<open>New\<close>), the
  per-entry delivery (\<^verbatim>\<open>Fire\<close>, \<^verbatim>\<open>write\<close>), the connection pool (\<^verbatim>\<open>getConn\<close>,
  \<^verbatim>\<open>putConn\<close>) and the shutdown (\<^verbatim>\<open>FlushAndClose\<close>).

  The network, the error stream and the mutex are outside the program. Every call the
  program makes to them is appended to a trace, and what the network answers is read from
  an environment that may depend on the whole history. A Go panic is a result of its own,
  distinct from a returned error.
\<close>

subsection \<open>Severities of logrus\<close>

text \<open>\<^verbatim>\<open>logrus.Level\<close> is a \<^verbatim>\<open>uint32\<close>; the seven constants and \<^verbatim>\<open>logrus.AllLevels\<close> are
  those of the library.\<close>

type_synonym Level = "32 word"

definition PanicLevel :: Level where "PanicLevel = 0"
definition FatalLevel :: Level where "FatalLevel = 1"
definition ErrorLevel :: Level where "ErrorLevel = 2"
definition WarnLevel :: Level where "WarnLevel = 3"
definition InfoLevel :: Level where "InfoLevel = 4"
definition DebugLevel :: Level where "DebugLevel = 5"
definition TraceLevel :: Level where "TraceLevel = 6"

definition AllLevels :: "Level list" where
  "AllLevels = [PanicLevel, FatalLevel, ErrorLevel, WarnLevel, InfoLevel, DebugLevel, TraceLevel]"

subsection \<open>Errors, options and the hook\<close>

text \<open>An error is either made by \<^verbatim>\<open>fmt.Errorf\<close> in this file, with its message, or comes
  from a library (net, crypto/tls, the JSON formatter) and is opaque.\<close>

datatype error = Errorf string | LibError nat

definition MissingToken :: error where
  "MissingToken = Errorf ''unable to create new hook: a Token is required''"

definition InvalidRegion :: error where
  "InvalidRegion = Errorf ''unable to create new hook: a Region is required and must be eu or us''"

definition MissingHubHost :: error where
  "MissingHubHost = Errorf ''unable to create new hook: a Datahub config must contain a Host target''"

text \<open>\<^verbatim>\<open>*tls.Config\<close> is opaque to the hook: it is only passed on to \<^verbatim>\<open>tls.Dial\<close>.\<close>

datatype tls_Config = Tls_Config nat

record UnencryptedConnectionConfig =
  Type :: string
  Port :: int
  Host :: string

record Opts =
  Priority :: Level
  TlsConfig :: "tls_Config option"
  DatahubConfig :: "UnencryptedConnectionConfig option"

record JSONFormatter =
  TimestampFormat :: string

text \<open>A \<^verbatim>\<open>net.Conn\<close> interface value: \<^verbatim>\<open>nil\<close>, or a live connection named by a number.\<close>

datatype conn = NilConn | Conn nat

text \<open>A buffered channel of connections: the values waiting in it, oldest first, its
  capacity, and whether \<^verbatim>\<open>close\<close> has been called on it.\<close>

record chan =
  ch_buf :: "conn list"
  ch_cap :: nat
  ch_closed :: bool

definition make_chan :: "nat \<Rightarrow> chan" where
  "make_chan n = \<lparr>ch_buf = [], ch_cap = n, ch_closed = False\<rparr>"

record InsightOpsHook =
  encrypt :: bool
  token :: string
  levels :: "Level list"
  formatter :: JSONFormatter
  network :: string
  port :: int
  tlsConfig :: "tls_Config option"
  host :: string
  pool :: chan
  poolSize :: nat

definition hostPostfix :: string where
  "hostPostfix = ''.data.logs.insight.rapid7.com''"

definition tlsPort :: int where
  "tlsPort = 443"

definition RFC3339 :: string where
  "RFC3339 = ''2006-01-02T15:04:05Z07:00''"

subsection \<open>The world outside: calls, trace and environment\<close>

text \<open>The calls that leave the program. The two lines written to \<^verbatim>\<open>os.Stderr\<close> are kept by
  their arguments instead of their formatted text. The entry type \<open>'e\<close> is
  \<^verbatim>\<open>logrus.Entry\<close>, which the hook only hands to the formatter.\<close>

datatype 'e event =
    TlsDial string string "tls_Config option"
  | NetDial string string
  | ConnWrite nat string
  | ConnClose nat
  | StderrReadFail error 'e
  | StderrWriteFail error string
  | MutexLock
  | MutexUnlock

type_synonym 'e trace = "'e event list"

text \<open>The environment answers a dial, a write or a close with \<open>None\<close> (it worked) or an
  error, knowing everything that happened before; \<open>json_format\<close> is
  \<^verbatim>\<open>JSONFormatter.Format\<close>.\<close>

record 'e env =
  io_result :: "'e trace \<Rightarrow> 'e event \<Rightarrow> error option"
  json_format :: "JSONFormatter \<Rightarrow> 'e \<Rightarrow> error + string"

datatype 'a outcome = Returns 'a | Panics string

definition nil_deref :: string where
  "nil_deref = ''runtime error: invalid memory address or nil pointer dereference''"

definition send_on_closed :: string where
  "send_on_closed = ''send on closed channel''"

definition close_of_closed :: string where
  "close_of_closed = ''close of closed channel''"

subsection \<open>Formatting the address\<close>

text \<open>\<^verbatim>\<open>fmt.Sprintf("%s:%d", host, port)\<close>.\<close>

definition digit_char :: "nat \<Rightarrow> char" where
  "digit_char d = ''0123456789'' ! d"

fun digits :: "nat \<Rightarrow> string" where
  "digits n =
     (if n < 10 then [digit_char n] else digits (n div 10) @ [digit_char (n mod 10)])"

declare digits.simps [simp del]

definition show_int :: "int \<Rightarrow> string" where
  "show_int i = (if i < 0 then CHR ''-'' # digits (nat (- i)) else digits (nat i))"

definition address :: "InsightOpsHook \<Rightarrow> string" where
  "address hook = host hook @ '':'' @ show_int (port hook)"

subsection \<open>Connections\<close>

text \<open>\<^verbatim>\<open>netConnect\<close>: a new connection, over TLS when the hook encrypts. A connection that
  was opened gets a number no earlier connection has (every dial lengthens the trace).\<close>

definition dial_call :: "InsightOpsHook \<Rightarrow> 'e event" where
  "dial_call hook =
     (if encrypt hook then TlsDial (network hook) (address hook) (tlsConfig hook)
      else NetDial (network hook) (address hook))"

definition netConnect :: "'e env \<Rightarrow> InsightOpsHook \<Rightarrow> 'e trace \<Rightarrow> (error + nat) \<times> 'e trace" where
  "netConnect env hook tr =
     (case io_result env tr (dial_call hook) of
        Some e \<Rightarrow> (Inl e, tr @ [dial_call hook])
      | None \<Rightarrow> (Inr (length tr), tr @ [dial_call hook]))"

text \<open>\<^verbatim>\<open>Close\<close> and \<^verbatim>\<open>Write\<close> on a live connection, and on an interface value that may be
  \<^verbatim>\<open>nil\<close> (the method call on \<^verbatim>\<open>nil\<close> panics).\<close>

definition close_live :: "'e env \<Rightarrow> nat \<Rightarrow> 'e trace \<Rightarrow> error option \<times> 'e trace" where
  "close_live env c tr = (io_result env tr (ConnClose c), tr @ [ConnClose c])"

definition write_live :: "'e env \<Rightarrow> nat \<Rightarrow> string \<Rightarrow> 'e trace \<Rightarrow> error option \<times> 'e trace" where
  "write_live env c bytes tr = (io_result env tr (ConnWrite c bytes), tr @ [ConnWrite c bytes])"

definition conn_Close :: "'e env \<Rightarrow> conn \<Rightarrow> 'e trace \<Rightarrow> error option outcome \<times> 'e trace" where
  "conn_Close env c tr =
     (case c of
        NilConn \<Rightarrow> (Panics nil_deref, tr)
      | Conn n \<Rightarrow> (case close_live env n tr of (r, tr') \<Rightarrow> (Returns r, tr')))"

definition conn_Write ::
  "'e env \<Rightarrow> conn \<Rightarrow> string \<Rightarrow> 'e trace \<Rightarrow> error option outcome \<times> 'e trace" where
  "conn_Write env c bytes tr =
     (case c of
        NilConn \<Rightarrow> (Panics nil_deref, tr)
      | Conn n \<Rightarrow> (case write_live env n bytes tr of (r, tr') \<Rightarrow> (Returns r, tr')))"

subsection \<open>New\<close>

text \<open>Lines 52 to 106 of \<^verbatim>\<open>New\<close>: the checks and the resolution of the target. The caller's
  options are behind a pointer and \<^verbatim>\<open>New\<close> writes through it, so the options as the caller
  sees them afterwards are part of the result. \<^verbatim>\<open>AllLevels[:priority+1]\<close> is within the
  slice for every priority that passes the range check (lemma \<open>levels_slice_in_range\<close>), so
  it is \<open>take\<close>.\<close>

definition clamp_priority :: "Level \<Rightarrow> Level" where
  "clamp_priority priority =
     (if priority < PanicLevel \<or> priority > TraceLevel then InfoLevel else priority)"

definition default_hub :: "UnencryptedConnectionConfig \<Rightarrow> UnencryptedConnectionConfig" where
  "default_hub dh =
     (let dh = (if Type dh = [] \<or> (Type dh \<noteq> ''tcp'' \<and> Type dh \<noteq> ''udp'')
                then dh\<lparr>Type := ''tcp''\<rparr> else dh);
          dh = (if Port dh = 0 \<or> (Port dh \<noteq> 80 \<and> Port dh \<noteq> 514 \<and> Port dh \<noteq> 10000)
                then dh\<lparr>Port := 514\<rparr> else dh)
      in dh)"

definition resolve ::
  "string \<Rightarrow> string \<Rightarrow> Opts option \<Rightarrow> (error + InsightOpsHook) \<times> Opts option" where
  "resolve tok region options =
     (if tok = [] then (Inl MissingToken, options)
      else if region = [] \<or> (region \<noteq> ''eu'' \<and> region \<noteq> ''us'') then (Inl InvalidRegion, options)
      else
        let hook = \<lparr>encrypt = True, token = tok, levels = AllLevels,
                    formatter = \<lparr>TimestampFormat = []\<rparr>, network = ''tcp'', port = tlsPort,
                    tlsConfig = None, host = region @ hostPostfix,
                    pool = make_chan 3, poolSize = 3\<rparr>
        in case options of
             None \<Rightarrow> (Inr hook, None)
           | Some opts \<Rightarrow>
               let hook = hook\<lparr>formatter := (formatter hook)\<lparr>TimestampFormat := RFC3339\<rparr>\<rparr>;
                   priority = clamp_priority (Priority opts);
                   hook = hook\<lparr>levels := take (unat (priority + 1)) AllLevels\<rparr>
               in case DatahubConfig opts of
                    None \<Rightarrow>
                      (Inr (if encrypt hook \<and> TlsConfig opts \<noteq> None
                            then hook\<lparr>tlsConfig := TlsConfig opts\<rparr> else hook),
                       Some opts)
                  | Some dh \<Rightarrow>
                      if Host dh = [] then (Inl MissingHubHost, Some opts)
                      else
                        let dh = default_hub dh;
                            hook = hook\<lparr>host := Host dh, encrypt := False,
                                        network := Type dh, port := Port dh\<rparr>
                        in (Inr (if encrypt hook \<and> TlsConfig opts \<noteq> None
                                 then hook\<lparr>tlsConfig := TlsConfig opts\<rparr> else hook),
                            Some (opts\<lparr>DatahubConfig := Some dh\<rparr>)))"

text \<open>Lines 108 to 116: the test connection. A dial error is dropped; an error of
  \<^verbatim>\<open>Close\<close> is returned in place of the hook.\<close>

definition probe ::
  "'e env \<Rightarrow> InsightOpsHook \<Rightarrow> 'e trace \<Rightarrow> (error + InsightOpsHook) \<times> 'e trace" where
  "probe env hook tr =
     (case netConnect env hook tr of
        (Inr c, tr1) \<Rightarrow>
          (case close_live env c tr1 of
             (Some e, tr2) \<Rightarrow> (Inl e, tr2)
           | (None, tr2) \<Rightarrow> (Inr hook, tr2))
      | (Inl e, tr1) \<Rightarrow> (Inr hook, tr1))"

definition New ::
  "'e env \<Rightarrow> string \<Rightarrow> string \<Rightarrow> Opts option \<Rightarrow> 'e trace
     \<Rightarrow> (error + InsightOpsHook) \<times> Opts option \<times> 'e trace" where
  "New env tok region options tr =
     (case resolve tok region options of
        (Inl e, options') \<Rightarrow> (Inl e, options', tr)
      | (Inr hook, options') \<Rightarrow>
          (case probe env hook tr of (r, tr') \<Rightarrow> (r, options', tr')))"

subsection \<open>The pool\<close>

text \<open>\<^verbatim>\<open>getConn\<close>: a non-blocking receive, else a dial. A receive from a channel takes the
  oldest value waiting; from a closed and empty channel it yields the zero value, \<^verbatim>\<open>nil\<close>,
  at once.\<close>

definition getConn ::
  "'e env \<Rightarrow> InsightOpsHook \<Rightarrow> 'e trace \<Rightarrow> (error + conn) \<times> InsightOpsHook \<times> 'e trace" where
  "getConn env hook tr =
     (case ch_buf (pool hook) of
        c # cs \<Rightarrow> (Inr c, hook\<lparr>pool := (pool hook)\<lparr>ch_buf := cs\<rparr>\<rparr>, tr)
      | [] \<Rightarrow>
          if ch_closed (pool hook) then (Inr NilConn, hook, tr)
          else (case netConnect env hook tr of
                  (Inl e, tr') \<Rightarrow> (Inl e, hook, tr')
                | (Inr c, tr') \<Rightarrow> (Inr (Conn c), hook, tr')))"

text \<open>\<^verbatim>\<open>putConn\<close>: under the mutex, a non-blocking send, else \<^verbatim>\<open>Close\<close> (its error is
  dropped). A send on a closed channel panics; the deferred \<^verbatim>\<open>Unlock\<close> runs all the same.\<close>

definition putConn ::
  "'e env \<Rightarrow> conn \<Rightarrow> InsightOpsHook \<Rightarrow> 'e trace \<Rightarrow> unit outcome \<times> InsightOpsHook \<times> 'e trace" where
  "putConn env c hook tr =
     (let tr = tr @ [MutexLock] in
      if ch_closed (pool hook) then (Panics send_on_closed, hook, tr @ [MutexUnlock])
      else if length (ch_buf (pool hook)) < ch_cap (pool hook)
      then (Returns (), hook\<lparr>pool := (pool hook)\<lparr>ch_buf := ch_buf (pool hook) @ [c]\<rparr>\<rparr>,
            tr @ [MutexUnlock])
      else (case conn_Close env c tr of
              (Panics p, tr') \<Rightarrow> (Panics p, hook, tr' @ [MutexUnlock])
            | (Returns _, tr') \<Rightarrow> (Returns (), hook, tr' @ [MutexUnlock])))"

text \<open>\<^verbatim>\<open>write\<close> (here \<open>write_line\<close>, as \<open>write\<close> is a command of Isabelle): one
  checkout, one \<^verbatim>\<open>Write\<close> of the token followed by the line.\<close>

definition write_line ::
  "'e env \<Rightarrow> string \<Rightarrow> InsightOpsHook \<Rightarrow> 'e trace
     \<Rightarrow> error option outcome \<times> InsightOpsHook \<times> 'e trace" where
  "write_line env line hook tr =
     (case getConn env hook tr of
        (Inl e, hook1, tr1) \<Rightarrow> (Returns (Some e), hook1, tr1)
      | (Inr c, hook1, tr1) \<Rightarrow>
          (case conn_Write env c (token hook1 @ line) tr1 of
             (Panics p, tr2) \<Rightarrow> (Panics p, hook1, tr2)
           | (Returns (Some e), tr2) \<Rightarrow>
               (case conn_Close env c tr2 of
                  (Panics p, tr3) \<Rightarrow> (Panics p, hook1, tr3)
                | (Returns _, tr3) \<Rightarrow> (Returns (Some e), hook1, tr3))
           | (Returns None, tr2) \<Rightarrow>
               (case putConn env c hook1 tr2 of
                  (Panics p, hook2, tr3) \<Rightarrow> (Panics p, hook2, tr3)
                | (Returns _, hook2, tr3) \<Rightarrow> (Returns None, hook2, tr3))))"

text \<open>\<^verbatim>\<open>FlushAndClose\<close>: under the mutex, \<^verbatim>\<open>close\<close> of the channel (which panics on a
  closed one), then the \<^verbatim>\<open>range\<close> loop, which receives what is waiting, oldest first,
  calls \<^verbatim>\<open>Close\<close> on each and ends when the closed channel is empty.\<close>

fun drain :: "'e env \<Rightarrow> conn list \<Rightarrow> 'e trace \<Rightarrow> unit outcome \<times> conn list \<times> 'e trace" where
  "drain env [] tr = (Returns (), [], tr)"
| "drain env (c # cs) tr =
     (case conn_Close env c tr of
        (Panics p, tr') \<Rightarrow> (Panics p, cs, tr')
      | (Returns _, tr') \<Rightarrow> drain env cs tr')"

definition FlushAndClose ::
  "'e env \<Rightarrow> InsightOpsHook \<Rightarrow> 'e trace \<Rightarrow> unit outcome \<times> InsightOpsHook \<times> 'e trace" where
  "FlushAndClose env hook tr =
     (let tr = tr @ [MutexLock] in
      if ch_closed (pool hook) then (Panics close_of_closed, hook, tr @ [MutexUnlock])
      else
        (case drain env (ch_buf (pool hook)) tr of
           (r, rest, tr') \<Rightarrow>
             (r, hook\<lparr>pool := (pool hook)\<lparr>ch_buf := rest, ch_closed := True\<rparr>\<rparr>,
              tr' @ [MutexUnlock])))"

subsection \<open>Fire and Levels\<close>

definition format ::
  "'e env \<Rightarrow> InsightOpsHook \<Rightarrow> 'e \<Rightarrow> error + string" where
  "format env hook entry =
     (case json_format env (formatter hook) entry of
        Inl e \<Rightarrow> Inl e
      | Inr serialized \<Rightarrow> Inr serialized)"

definition Fire ::
  "'e env \<Rightarrow> 'e \<Rightarrow> InsightOpsHook \<Rightarrow> 'e trace
     \<Rightarrow> error option outcome \<times> InsightOpsHook \<times> 'e trace" where
  "Fire env entry hook tr =
     (case format env hook entry of
        Inl e \<Rightarrow> (Returns (Some e), hook, tr @ [StderrReadFail e entry])
      | Inr line \<Rightarrow>
          (case write_line env line hook tr of
             (Panics p, hook', tr') \<Rightarrow> (Panics p, hook', tr')
           | (Returns (Some e), hook', tr') \<Rightarrow>
               (Returns None, hook', tr' @ [StderrWriteFail e line])
           | (Returns None, hook', tr') \<Rightarrow> (Returns None, hook', tr')))"

definition Levels :: "InsightOpsHook \<Rightarrow> Level list" where
  "Levels hook = levels hook"

subsection \<open>Reading a trace\<close>


fun is_write :: "'e event \<Rightarrow> bool" where
  "is_write (ConnWrite c bytes) = True"
| "is_write _ = False"

subsection \<open>Hooks that the program can hold\<close>

text \<open>What holds of the pool of every hook that \<^verbatim>\<open>New\<close> returned, after any sequence of
  calls of its methods: the capacity is the pool size, 3; no more connections wait than
  the capacity; no \<^verbatim>\<open>nil\<close> waits (only \<^verbatim>\<open>write\<close> checks in, and only a connection it has
  written to); and a closed channel is empty, since \<^verbatim>\<open>FlushAndClose\<close> closes and drains it
  under the mutex that every check-in takes.\<close>

definition hook_inv :: "InsightOpsHook \<Rightarrow> bool" where
  "hook_inv hook \<longleftrightarrow>
     poolSize hook = 3 \<and> ch_cap (pool hook) = poolSize hook \<and>
     length (ch_buf (pool hook)) \<le> ch_cap (pool hook) \<and>
     NilConn \<notin> set (ch_buf (pool hook)) \<and>
     (ch_closed (pool hook) \<longrightarrow> ch_buf (pool hook) = [])"

text \<open>The live connections among the values of a channel, in order.\<close>

fun conn_ids :: "conn list \<Rightarrow> nat list" where
  "conn_ids [] = []"
| "conn_ids (NilConn # cs) = conn_ids cs"
| "conn_ids (Conn n # cs) = n # conn_ids cs"

subsection \<open>Environments and inputs for the examples\<close>

text \<open>Entries are plain strings here and the formatter returns them as they are. The
  environments differ in which call fails.\<close>

definition env_ok :: "string env" where
  "env_ok = \<lparr>io_result = (\<lambda>tr ev. None), json_format = (\<lambda>f e. Inr e)\<rparr>"

definition env_dial_fails :: "string env" where
  "env_dial_fails =
     \<lparr>io_result = (\<lambda>tr ev. case ev of TlsDial n a c \<Rightarrow> Some (LibError 3)
                              | NetDial n a \<Rightarrow> Some (LibError 3) | _ \<Rightarrow> None),
      json_format = (\<lambda>f e. Inr e)\<rparr>"

definition env_close_fails :: "string env" where
  "env_close_fails =
     \<lparr>io_result = (\<lambda>tr ev. case ev of ConnClose c \<Rightarrow> Some (LibError 2) | _ \<Rightarrow> None),
      json_format = (\<lambda>f e. Inr e)\<rparr>"

definition env_write_fails :: "string env" where
  "env_write_fails =
     \<lparr>io_result = (\<lambda>tr ev. case ev of ConnWrite c b \<Rightarrow> Some (LibError 4) | _ \<Rightarrow> None),
      json_format = (\<lambda>f e. Inr e)\<rparr>"

definition env_format_fails :: "string env" where
  "env_format_fails = \<lparr>io_result = (\<lambda>tr ev. None), json_format = (\<lambda>f e. Inl (LibError 5))\<rparr>"

text \<open>Options: a hub override with no Host; one with a Host and with a Type, a Port and a
  Priority that are not valid; no hub override and a Priority above trace; no hub
  override and Priority = error.\<close>

definition opts_no_host :: Opts where
  "opts_no_host =
     \<lparr>Priority = InfoLevel, TlsConfig = None,
      DatahubConfig = Some \<lparr>Type = ''bogus'', Port = 9999, Host = []\<rparr>\<rparr>"

definition opts_bogus_hub :: Opts where
  "opts_bogus_hub =
     \<lparr>Priority = 9, TlsConfig = None,
      DatahubConfig = Some \<lparr>Type = ''bogus'', Port = 9999, Host = ''localhost''\<rparr>\<rparr>"

definition opts_out_of_range :: Opts where
  "opts_out_of_range = \<lparr>Priority = 7, TlsConfig = None, DatahubConfig = None\<rparr>"

definition opts_error :: Opts where
  "opts_error = \<lparr>Priority = ErrorLevel, TlsConfig = None, DatahubConfig = None\<rparr>"

text \<open>Hooks: the one \<^verbatim>\<open>New("T1", "eu", nil)\<close> returns, and the same with two connections
  waiting in the pool, with three, and after a shutdown.\<close>

definition hook_eu :: InsightOpsHook where
  "hook_eu =
     \<lparr>encrypt = True, token = ''T1'', levels = AllLevels,
      formatter = \<lparr>TimestampFormat = []\<rparr>, network = ''tcp'', port = 443,
      tlsConfig = None, host = ''eu.data.logs.insight.rapid7.com'',
      pool = \<lparr>ch_buf = [], ch_cap = 3, ch_closed = False\<rparr>, poolSize = 3\<rparr>"

definition hook_pooled :: InsightOpsHook where
  "hook_pooled = hook_eu\<lparr>pool := \<lparr>ch_buf = [Conn 0, Conn 5], ch_cap = 3, ch_closed = False\<rparr>\<rparr>"

definition hook_full :: InsightOpsHook where
  "hook_full =
     hook_eu\<lparr>pool := \<lparr>ch_buf = [Conn 0, Conn 5, Conn 8], ch_cap = 3, ch_closed = False\<rparr>\<rparr>"

definition hook_closed :: InsightOpsHook where
  "hook_closed = hook_eu\<lparr>pool := \<lparr>ch_buf = [], ch_cap = 3, ch_closed = True\<rparr>\<rparr>"

section \<open>Properties\<close>

subsection \<open>Evaluation and basic facts\<close>

lemmas Level_defs =
  PanicLevel_def FatalLevel_def ErrorLevel_def WarnLevel_def InfoLevel_def DebugLevel_def
  TraceLevel_def

lemmas New_eval =
  New_def resolve_def probe_def netConnect_def close_live_def dial_call_def address_def
  show_int_def digits.simps digit_char_def hostPostfix_def tlsPort_def make_chan_def
  MissingToken_def InvalidRegion_def MissingHubHost_def Let_def clamp_priority_def default_hub_def
  AllLevels_def Level_defs RFC3339_def

lemma show_int_443: "show_int 443 = ''443''"
  by (simp add: show_int_def digits.simps digit_char_def)

lemma probe_cases:
  "probe env hook tr =
     (case io_result env tr (dial_call hook) of
        Some e \<Rightarrow> (Inr hook, tr @ [dial_call hook])
      | None \<Rightarrow>
          (case io_result env (tr @ [dial_call hook]) (ConnClose (length tr)) of
             Some e \<Rightarrow> (Inl e, tr @ [dial_call hook, ConnClose (length tr)])
           | None \<Rightarrow> (Inr hook, tr @ [dial_call hook, ConnClose (length tr)])))"
  by (simp add: probe_def netConnect_def close_live_def split: option.splits)

lemma New_options: "fst (snd (New env tok region options tr)) = snd (resolve tok region options)"
  by (simp add: New_def split: prod.splits sum.splits)

lemma New_hook:
  "fst (New env tok region options tr) = Inr hook \<Longrightarrow> fst (resolve tok region options) = Inr hook"
  by (auto simp: New_def probe_cases split: prod.splits sum.splits option.splits)

lemma resolve_no_token: "resolve [] region options = (Inl MissingToken, options)"
  by (simp add: resolve_def)

lemma resolve_bad_region:
  "tok \<noteq> [] \<Longrightarrow> region \<noteq> ''eu'' \<Longrightarrow> region \<noteq> ''us'' \<Longrightarrow>
   resolve tok region options = (Inl InvalidRegion, options)"
  by (simp add: resolve_def)

lemma resolve_direct:
  assumes "tok \<noteq> []" "region = ''eu'' \<or> region = ''us''"
    and "options = None \<or> (\<exists>opts. options = Some opts \<and> DatahubConfig opts = None)"
  shows "\<exists>hook. resolve tok region options = (Inr hook, options) \<and>
           host hook = region @ hostPostfix \<and> port hook = 443 \<and> network hook = ''tcp'' \<and>
           encrypt hook \<and> tlsConfig hook = (case options of None \<Rightarrow> None | Some opts \<Rightarrow> TlsConfig opts)"
  using assms by (auto simp: resolve_def Let_def tlsPort_def)

lemma default_hub_Host: "Host (default_hub dh) = Host dh"
  by (simp add: default_hub_def Let_def)

lemma resolve_hub:
  assumes "tok \<noteq> []" "region = ''eu'' \<or> region = ''us''"
    and "options = Some opts" "DatahubConfig opts = Some dh" "Host dh \<noteq> []"
  shows "\<exists>hook. resolve tok region options =
            (Inr hook, Some (opts\<lparr>DatahubConfig := Some (default_hub dh)\<rparr>)) \<and>
           host hook = Host dh \<and> port hook = Port (default_hub dh) \<and>
           network hook = Type (default_hub dh) \<and>
           \<not> encrypt hook \<and> tlsConfig hook = None"
  using assms by (auto simp: resolve_def Let_def tlsPort_def default_hub_Host)

lemma default_hub_eq:
  "default_hub dh =
     dh\<lparr>Type := (if Type dh = ''tcp'' \<or> Type dh = ''udp'' then Type dh else ''tcp''),
        Port := (if Port dh = 80 \<or> Port dh = 514 \<or> Port dh = 10000 then Port dh else 514)\<rparr>"
  by (auto simp: default_hub_def Let_def)

lemma resolve_hub_no_host:
  assumes "tok \<noteq> []" "region = ''eu'' \<or> region = ''us''"
    and "options = Some opts" "DatahubConfig opts = Some dh" "Host dh = []"
  shows "resolve tok region options = (Inl MissingHubHost, options)"
  using assms by (auto simp: resolve_def Let_def)

lemma level_cases:
  fixes p :: Level
  assumes "p \<le> 6"
  shows "p = 0 \<or> p = 1 \<or> p = 2 \<or> p = 3 \<or> p = 4 \<or> p = 5 \<or> p = 6"
proof -
  from assms have "unat p \<le> 6" by (simp add: word_le_nat_alt)
  then have "unat p = 0 \<or> unat p = 1 \<or> unat p = 2 \<or> unat p = 3 \<or> unat p = 4 \<or>
             unat p = 5 \<or> unat p = 6"
    by arith
  then show ?thesis
    by (auto simp: word_unat_eq_iff)
qed

lemma clamp_priority_eq:
  "clamp_priority p = (if TraceLevel < p then InfoLevel else p)"
  by (simp add: clamp_priority_def PanicLevel_def)

lemma clamp_priority_le: "clamp_priority p \<le> TraceLevel"
  by (simp add: clamp_priority_eq Level_defs not_less)

lemma levels_slice_in_range: "unat (clamp_priority p + 1) \<le> length AllLevels"
  using level_cases [of "clamp_priority p"] clamp_priority_le [of p]
  by (auto simp: AllLevels_def TraceLevel_def)

lemma levels_prefix:
  fixes thr :: Level
  assumes "thr \<le> TraceLevel"
  shows "take (unat (thr + 1)) AllLevels = take (Suc (unat thr)) AllLevels"
    and "take (unat (thr + 1)) AllLevels = filter (\<lambda>l. l \<le> thr) AllLevels"
  using level_cases [of thr] assms
  by (auto simp: AllLevels_def Level_defs word_le_nat_alt)

lemma resolve_levels:
  assumes "fst (resolve tok region options) = Inr hook"
  shows "levels hook =
           (case options of None \<Rightarrow> AllLevels
            | Some opts \<Rightarrow> take (unat (clamp_priority (Priority opts) + 1)) AllLevels)"
  using assms
  by (auto simp: resolve_def Let_def split: if_splits option.splits)

lemma resolve_priority_default:
  "TraceLevel < Priority opts \<Longrightarrow>
   fst (resolve tok region (Some opts)) = fst (resolve tok region (Some (opts\<lparr>Priority := InfoLevel\<rparr>)))"
  by (simp add: resolve_def Let_def clamp_priority_eq Level_defs split: option.splits)


lemma New_result:
  "fst (New env tok region options tr) =
     (case fst (resolve tok region options) of
        Inl e \<Rightarrow> Inl e
      | Inr hook \<Rightarrow> fst (probe env hook tr))"
  by (simp add: New_def split: prod.splits sum.splits)

subsection \<open>The pool: basic facts\<close>

lemmas hook_eval =
  hook_eu_def hook_pooled_def hook_full_def hook_closed_def hook_inv_def AllLevels_def Level_defs

lemma resolve_inv:
  "fst (resolve tok region options) = Inr hook \<Longrightarrow>
   hook_inv hook \<and> \<not> ch_closed (pool hook) \<and> ch_buf (pool hook) = []"
  by (auto simp: resolve_def Let_def hook_inv_def make_chan_def split: if_splits option.splits)

lemma New_inv:
  "fst (New env tok region options tr) = Inr hook \<Longrightarrow>
   hook_inv hook \<and> \<not> ch_closed (pool hook) \<and> ch_buf (pool hook) = []"
  by (rule resolve_inv) (rule New_hook)

lemma getConn_pooled:
  "ch_buf (pool hook) = c # cs \<Longrightarrow>
   getConn env hook tr = (Inr c, hook\<lparr>pool := (pool hook)\<lparr>ch_buf := cs\<rparr>\<rparr>, tr)"
  by (simp add: getConn_def)

lemma getConn_closed:
  "ch_buf (pool hook) = [] \<Longrightarrow> ch_closed (pool hook) \<Longrightarrow>
   getConn env hook tr = (Inr NilConn, hook, tr)"
  by (simp add: getConn_def)

lemma getConn_dial:
  "ch_buf (pool hook) = [] \<Longrightarrow> \<not> ch_closed (pool hook) \<Longrightarrow>
   getConn env hook tr =
     (case io_result env tr (dial_call hook) of
        Some e \<Rightarrow> Inl e
      | None \<Rightarrow> Inr (Conn (length tr)),
      hook, tr @ [dial_call hook])"
  by (simp add: getConn_def netConnect_def split: option.splits)

lemma getConn_live:
  assumes "hook_inv hook" and "getConn env hook tr = (Inr (Conn c), hook1, tr1)"
  shows "hook_inv hook1 \<and> \<not> ch_closed (pool hook1) \<and>
         length (ch_buf (pool hook1)) < ch_cap (pool hook1) \<and> token hook1 = token hook"
proof (cases "ch_buf (pool hook)")
  case Nil
  with assms show ?thesis
    by (cases "ch_closed (pool hook)")
       (auto simp: getConn_closed getConn_dial hook_inv_def split: option.splits)
next
  case (Cons c' cs)
  with assms show ?thesis
    by (auto simp: getConn_pooled hook_inv_def)
qed

lemma getConn_inv:
  assumes "hook_inv hook" and "getConn env hook tr = (r, hook1, tr1)"
  shows "hook_inv hook1 \<and> token hook1 = token hook \<and>
         (ch_closed (pool hook1) \<longleftrightarrow> ch_closed (pool hook))"
proof (cases "ch_buf (pool hook)")
  case Nil
  with assms show ?thesis
    by (cases "ch_closed (pool hook)")
       (auto simp: getConn_closed getConn_dial hook_inv_def split: option.splits)
next
  case (Cons c' cs)
  with assms show ?thesis
    by (auto simp: getConn_pooled hook_inv_def)
qed

lemma putConn_spare:
  assumes "\<not> ch_closed (pool hook)" and "length (ch_buf (pool hook)) < ch_cap (pool hook)"
  shows "putConn env c hook tr =
           (Returns (), hook\<lparr>pool := (pool hook)\<lparr>ch_buf := ch_buf (pool hook) @ [c]\<rparr>\<rparr>,
            tr @ [MutexLock, MutexUnlock])"
  using assms by (simp add: putConn_def Let_def)

lemma putConn_full:
  assumes "\<not> ch_closed (pool hook)" and "ch_cap (pool hook) \<le> length (ch_buf (pool hook))"
  shows "putConn env (Conn n) hook tr =
           (Returns (), hook, tr @ [MutexLock, ConnClose n, MutexUnlock])"
  using assms by (simp add: putConn_def Let_def conn_Close_def close_live_def)

lemma putConn_closed:
  assumes "ch_closed (pool hook)"
  shows "putConn env c hook tr = (Panics send_on_closed, hook, tr @ [MutexLock, MutexUnlock])"
  using assms by (simp add: putConn_def Let_def)

lemma drain_live:
  "NilConn \<notin> set cs \<Longrightarrow> drain env cs tr = (Returns (), [], tr @ map ConnClose (conn_ids cs))"
proof (induction cs arbitrary: tr)
  case Nil
  show ?case by simp
next
  case (Cons c cs)
  then obtain n where c: "c = Conn n"
    by (cases c) auto
  from Cons.prems have "NilConn \<notin> set cs" by simp
  from Cons.IH [OF this] show ?case
    by (simp add: c conn_Close_def close_live_def)
qed


lemma conn_ids_live: "NilConn \<notin> set cs \<Longrightarrow> map Conn (conn_ids cs) = cs"
  by (induction cs rule: conn_ids.induct) auto

lemma conn_Write_live:
  "conn_Write env (Conn c) bytes tr =
     (Returns (io_result env tr (ConnWrite c bytes)), tr @ [ConnWrite c bytes])"
  by (simp add: conn_Write_def write_live_def)

lemma conn_Close_live:
  "conn_Close env (Conn c) tr = (Returns (io_result env tr (ConnClose c)), tr @ [ConnClose c])"
  by (simp add: conn_Close_def close_live_def)

lemma conn_Write_returns:
  "conn_Write env c bytes tr = (Returns r, tr') \<Longrightarrow> \<exists>n. c = Conn n"
  by (cases c) (simp_all add: conn_Write_def)

lemma write_line_dial_error:
  assumes "getConn env hook tr = (Inl e, hook1, tr1)"
  shows "write_line env line hook tr = (Returns (Some e), hook1, tr1) \<and>
         hook1 = hook \<and> tr1 = tr @ [dial_call hook]"
  using assms
  by (auto simp: write_line_def getConn_def netConnect_def split: list.splits if_splits option.splits)

lemma write_line_nil:
  assumes "getConn env hook tr = (Inr NilConn, hook1, tr1)"
  shows "write_line env line hook tr = (Panics nil_deref, hook1, tr1)"
  using assms by (simp add: write_line_def conn_Write_def)

lemma write_line_live:
  assumes "hook_inv hook" and "getConn env hook tr = (Inr (Conn c), hook1, tr1)"
  shows "write_line env line hook tr =
           (case io_result env tr1 (ConnWrite c (token hook @ line)) of
              Some e \<Rightarrow>
                (Returns (Some e), hook1,
                 tr1 @ [ConnWrite c (token hook @ line), ConnClose c])
            | None \<Rightarrow>
                (Returns None,
                 hook1\<lparr>pool := (pool hook1)\<lparr>ch_buf := ch_buf (pool hook1) @ [Conn c]\<rparr>\<rparr>,
                 tr1 @ [ConnWrite c (token hook @ line), MutexLock, MutexUnlock]))"
proof -
  from getConn_live [OF assms] have opened: "\<not> ch_closed (pool hook1)"
    and spare: "length (ch_buf (pool hook1)) < ch_cap (pool hook1)"
    and tok: "token hook1 = token hook"
    by simp_all
  show ?thesis
    by (simp add: write_line_def assms(2) conn_Write_live conn_Close_live tok
        putConn_spare [OF opened spare] split: option.splits)
qed

lemma write_line_returns:
  assumes "hook_inv hook" and "\<not> ch_closed (pool hook)"
  shows "\<exists>r hook' tr'. write_line env line hook tr = (Returns r, hook', tr') \<and>
           hook_inv hook' \<and> \<not> ch_closed (pool hook')"
proof -
  obtain g hook1 tr1 where g: "getConn env hook tr = (g, hook1, tr1)"
    by (cases "getConn env hook tr") auto
  from getConn_inv [OF assms(1) g] assms(2)
  have inv1: "hook_inv hook1" and open1: "\<not> ch_closed (pool hook1)"
    by simp_all
  show ?thesis
  proof (cases g)
    case (Inl e)
    with g write_line_dial_error [of env hook tr e hook1 tr1 line] inv1 open1 show ?thesis
      by simp
  next
    case (Inr c)
    show ?thesis
    proof (cases c)
      case NilConn
      with g Inr assms show ?thesis
        by (auto simp: getConn_def netConnect_def hook_inv_def
            split: list.splits if_splits option.splits)
    next
      case (Conn k)
      with g Inr have live: "getConn env hook tr = (Inr (Conn k), hook1, tr1)" by simp
      from getConn_live [OF assms(1) live]
      have spare: "length (ch_buf (pool hook1)) < ch_cap (pool hook1)" by simp
      have "hook_inv (hook1\<lparr>pool := (pool hook1)\<lparr>ch_buf := ch_buf (pool hook1) @ [Conn k]\<rparr>\<rparr>)"
        using inv1 open1 spare by (simp add: hook_inv_def)
      with write_line_live [OF assms(1) live, of line] inv1 open1 show ?thesis
        by (auto split: option.splits)
    qed
  qed
qed

text \<open>Every method keeps \<open>hook_inv\<close>, which \<open>New_inv\<close> establishes; and after a
  successful \<^verbatim>\<open>write\<close> the next checkout is served from the pool.\<close>

lemma putConn_inv:
  assumes "hook_inv hook" and "c \<noteq> NilConn" and "putConn env c hook tr = (r, hook', tr')"
  shows "hook_inv hook'"
proof (cases "ch_closed (pool hook)")
  case True
  with assms show ?thesis
    by (simp add: putConn_closed)
next
  case False
  obtain n where c: "c = Conn n"
    using assms(2) by (cases c) auto
  show ?thesis
  proof (cases "length (ch_buf (pool hook)) < ch_cap (pool hook)")
    case True
    with assms False show ?thesis
      by (auto simp: putConn_spare hook_inv_def)
  next
    case False
    with assms \<open>\<not> ch_closed (pool hook)\<close> show ?thesis
      by (simp add: c putConn_full)
  qed
qed

lemma write_line_inv:
  assumes "hook_inv hook" and "write_line env line hook tr = (r, hook', tr')"
  shows "hook_inv hook'"
proof -
  obtain g hook1 tr1 where g: "getConn env hook tr = (g, hook1, tr1)"
    by (cases "getConn env hook tr") auto
  from getConn_inv [OF assms(1) g] have inv1: "hook_inv hook1"
    by simp
  show ?thesis
  proof (cases g)
    case (Inl e)
    with g assms write_line_dial_error [of env hook tr e hook1 tr1 line] show ?thesis
      by simp
  next
    case (Inr c)
    show ?thesis
    proof (cases c)
      case NilConn
      with g Inr assms(2) inv1 write_line_nil [of env hook tr hook1 tr1 line] show ?thesis
        by simp
    next
      case (Conn k)
      with g Inr have live: "getConn env hook tr = (Inr (Conn k), hook1, tr1)" by simp
      from getConn_live [OF assms(1) live]
      have "\<not> ch_closed (pool hook1)" "length (ch_buf (pool hook1)) < ch_cap (pool hook1)"
        by simp_all
      with inv1
      have "hook_inv (hook1\<lparr>pool := (pool hook1)\<lparr>ch_buf := ch_buf (pool hook1) @ [Conn k]\<rparr>\<rparr>)"
        by (simp add: hook_inv_def)
      with write_line_live [OF assms(1) live, of line] inv1 assms(2) show ?thesis
        by (auto split: option.splits)
    qed
  qed
qed

lemma Fire_inv:
  assumes "hook_inv hook" and "Fire env entry hook tr = (r, hook', tr')"
  shows "hook_inv hook'"
proof (cases "format env hook entry")
  case (Inl e)
  with assms show ?thesis
    by (simp add: Fire_def)
next
  case (Inr line)
  obtain w hook1 tr1 where w: "write_line env line hook tr = (w, hook1, tr1)"
    by (cases "write_line env line hook tr") auto
  from write_line_inv [OF assms(1) w] have "hook_inv hook1" .
  with assms(2) Inr w show ?thesis
    by (auto simp: Fire_def split: outcome.splits option.splits)
qed

lemma FlushAndClose_inv:
  assumes "hook_inv hook" and "FlushAndClose env hook tr = (r, hook', tr')"
  shows "hook_inv hook' \<and> ch_closed (pool hook')"
proof -
  from assms(1) have live: "NilConn \<notin> set (ch_buf (pool hook))"
    by (simp add: hook_inv_def)
  from assms show ?thesis
    by (cases "ch_closed (pool hook)")
       (auto simp: FlushAndClose_def Let_def drain_live [OF live] hook_inv_def)
qed

lemma write_then_checkout:
  assumes "hook_inv hook" and "write_line env line hook tr = (Returns None, hook', tr')"
  shows "\<exists>c cs. ch_buf (pool hook') = Conn c # cs \<and>
           getConn env hook' tr' = (Inr (Conn c), hook'\<lparr>pool := (pool hook')\<lparr>ch_buf := cs\<rparr>\<rparr>, tr')"
proof -
  obtain g hook1 tr1 where g: "getConn env hook tr = (g, hook1, tr1)"
    by (cases "getConn env hook tr") auto
  from assms(2) g obtain k where live: "getConn env hook tr = (Inr (Conn k), hook1, tr1)"
    using write_line_dial_error [of env hook tr _ hook1 tr1 line]
      write_line_nil [of env hook tr hook1 tr1 line]
    by (cases g; cases "projr g") auto
  from write_line_live [OF assms(1) live, of line] assms(2)
  have buf: "ch_buf (pool hook') = ch_buf (pool hook1) @ [Conn k]"
    by (auto split: option.splits)
  then have "ch_buf (pool hook') \<noteq> []"
    by simp
  then obtain x cs where split: "ch_buf (pool hook') = x # cs"
    by (cases "ch_buf (pool hook')") auto
  from write_line_inv [OF assms] have "NilConn \<notin> set (ch_buf (pool hook'))"
    by (simp add: hook_inv_def)
  with split obtain c where "x = Conn c"
    by (cases x) auto
  with split show ?thesis
    by (auto simp: getConn_pooled)
qed

subsection \<open>Fire: what the caller gets\<close>

text \<open>Claim C1, as amended. On a hook whose pool was not shut down, \<^verbatim>\<open>Fire\<close> returns an
  error exactly when the serialization fails, and then that error, after writing it to
  the error stream. Whenever the serialization succeeds \<^verbatim>\<open>Fire\<close> returns \<^verbatim>\<open>nil\<close>, whatever
  the delivery did: an error of the dial or of the write is written to the error stream
  and not returned.\<close>

theorem Fire_result:
  assumes "hook_inv hook" and "\<not> ch_closed (pool hook)"
  shows "fst (Fire env entry hook tr) =
           Returns (case json_format env (formatter hook) entry of
                      Inl e \<Rightarrow> Some e | Inr line \<Rightarrow> None) \<and>
         (json_format env (formatter hook) entry = Inl e \<longrightarrow>
            snd (snd (Fire env entry hook tr)) = tr @ [StderrReadFail e entry]) \<and>
         (json_format env (formatter hook) entry = Inr line \<longrightarrow>
            snd (snd (Fire env entry hook tr)) =
              (case fst (write_line env line hook tr) of
                 Returns (Some e') \<Rightarrow>
                   snd (snd (write_line env line hook tr)) @ [StderrWriteFail e' line]
               | _ \<Rightarrow> snd (snd (write_line env line hook tr))))"
proof -
  have "fst (Fire env entry hook tr) = Returns None \<and>
        snd (snd (Fire env entry hook tr)) =
              (case fst (write_line env l hook tr) of
                 Returns (Some e') \<Rightarrow>
                   snd (snd (write_line env l hook tr)) @ [StderrWriteFail e' l]
               | _ \<Rightarrow> snd (snd (write_line env l hook tr)))"
    if "json_format env (formatter hook) entry = Inr l" for l
  proof -
    from write_line_returns [OF assms, of env l tr] obtain r hook' tr'
      where "write_line env l hook tr = (Returns r, hook', tr')"
      by blast
    with that show ?thesis
      by (cases r) (simp_all add: Fire_def format_def)
  qed
  moreover have "fst (Fire env entry hook tr) = Returns (Some e') \<and>
                 snd (snd (Fire env entry hook tr)) = tr @ [StderrReadFail e' entry]"
    if "json_format env (formatter hook) entry = Inl e'" for e'
    using that by (simp add: Fire_def format_def)
  ultimately show ?thesis
    by (cases "json_format env (formatter hook) entry") auto
qed

text \<open>Claim C1 as stated fails: a serialization error is returned to the caller.\<close>

theorem Fire_result_counterexample:
  "Fire env_format_fails ''hello'' hook_eu [] =
     (Returns (Some (LibError 5)), hook_eu, [StderrReadFail (LibError 5) ''hello''])"
  by (simp add: Fire_def format_def env_format_fails_def)

theorem Fire_result_witness:
  "hook_inv hook_eu \<and> ch_closed (pool hook_eu) = False \<and>
   fst (Fire env_dial_fails ''hello'' hook_eu []) = Returns None \<and>
   snd (snd (Fire env_dial_fails ''hello'' hook_eu [])) =
     [TlsDial ''tcp'' ''eu.data.logs.insight.rapid7.com:443'' None,
      StderrWriteFail (LibError 3) ''hello''] \<and>
   fst (Fire env_format_fails ''hello'' hook_eu []) = Returns (Some (LibError 5)) \<and>
   snd (snd (Fire env_format_fails ''hello'' hook_eu [])) =
     [StderrReadFail (LibError 5) ''hello'']"
proof -
  have h: "hook_inv hook_eu" "\<not> ch_closed (pool hook_eu)"
    by (simp_all add: hook_eval)
  have w: "write_line env_dial_fails ''hello'' hook_eu [] =
     (Returns (Some (LibError 3)), hook_eu,
      [TlsDial ''tcp'' ''eu.data.logs.insight.rapid7.com:443'' None])"
    by (simp add: write_line_def getConn_def netConnect_def dial_call_def address_def show_int_443
        hook_eval env_dial_fails_def)
  have j: "json_format env_dial_fails (formatter hook_eu) ''hello'' = Inr ''hello''"
    "json_format env_format_fails (formatter hook_eu) ''hello'' = Inl (LibError 5)"
    by (simp_all add: env_dial_fails_def env_format_fails_def)
  from Fire_result [OF h, of env_dial_fails "''hello''" "[]" "LibError 5" "''hello''"]
    Fire_result [OF h, of env_format_fails "''hello''" "[]" "LibError 5" "''hello''"]
    h w j
  show ?thesis
    by simp
qed

subsection \<open>New: validation and the direct target\<close>

text \<open>Claim C2, as amended. An empty token fails with MissingToken whatever the region;
  otherwise a region other than eu and us (the empty one too) fails with InvalidRegion;
  otherwise, with no hub override, the configuration resolves to a hook with host =
  region + ".data.logs.insight.rapid7.com", port 443, transport tcp, encrypted, and
  \<^verbatim>\<open>New\<close> dials that target once and returns that hook, unless the probe connection was
  opened and its \<^verbatim>\<open>Close\<close> failed: then, and only then, \<^verbatim>\<open>New\<close> returns that error and no
  hook.\<close>

theorem New_direct:
  "New env [] region options tr = (Inl MissingToken, options, tr) \<and>
   (tok \<noteq> [] \<longrightarrow> region \<noteq> ''eu'' \<longrightarrow> region \<noteq> ''us'' \<longrightarrow>
      New env tok region options tr = (Inl InvalidRegion, options, tr)) \<and>
   (tok \<noteq> [] \<longrightarrow> region = ''eu'' \<or> region = ''us'' \<longrightarrow>
    (case options of None \<Rightarrow> True | Some opts \<Rightarrow> DatahubConfig opts = None) \<longrightarrow>
      (let d = TlsDial ''tcp'' (region @ ''.data.logs.insight.rapid7.com:443'')
                 (case options of None \<Rightarrow> None | Some opts \<Rightarrow> TlsConfig opts)
       in (case fst (New env tok region options tr) of
            Inr hook \<Rightarrow>
              host hook = region @ ''.data.logs.insight.rapid7.com'' \<and> port hook = 443 \<and>
              network hook = ''tcp'' \<and> encrypt hook
          | Inl e \<Rightarrow>
              io_result env tr d = None \<and>
              io_result env (tr @ [d]) (ConnClose (length tr)) = Some e) \<and>
         (io_result env tr d = None \<longrightarrow>
          io_result env (tr @ [d]) (ConnClose (length tr)) = Some e' \<longrightarrow>
            New env tok region options tr =
              (Inl e', options, tr @ [d, ConnClose (length tr)])) \<and>
         (\<exists>hook. host hook = region @ ''.data.logs.insight.rapid7.com'' \<and> port hook = 443 \<and>
            network hook = ''tcp'' \<and> encrypt hook \<and>
            New env tok region options tr =
              (case io_result env tr d of
                 Some e \<Rightarrow> (Inr hook, options, tr @ [d])
               | None \<Rightarrow>
                   (case io_result env (tr @ [d]) (ConnClose (length tr)) of
                      Some e \<Rightarrow> Inl e
                    | None \<Rightarrow> Inr hook,
                    options, tr @ [d, ConnClose (length tr)])))))"
proof (intro conjI impI)
  show "New env [] region options tr = (Inl MissingToken, options, tr)"
    by (simp add: New_def resolve_no_token)
next
  assume "tok \<noteq> []" "region \<noteq> ''eu''" "region \<noteq> ''us''"
  then show "New env tok region options tr = (Inl InvalidRegion, options, tr)"
    by (simp add: New_def resolve_bad_region)
next
  assume a: "tok \<noteq> []" "region = ''eu'' \<or> region = ''us''"
    "case options of None \<Rightarrow> True | Some opts \<Rightarrow> DatahubConfig opts = None"
  then have "options = None \<or> (\<exists>opts. options = Some opts \<and> DatahubConfig opts = None)"
    by (cases options) auto
  from resolve_direct [OF a(1,2) this] obtain hook where
    r: "resolve tok region options = (Inr hook, options)" and
    h: "host hook = region @ hostPostfix" "port hook = 443" "network hook = ''tcp''" "encrypt hook"
       "tlsConfig hook = (case options of None \<Rightarrow> None | Some opts \<Rightarrow> TlsConfig opts)"
    by blast
  let ?d = "TlsDial ''tcp'' (region @ ''.data.logs.insight.rapid7.com:443'')
              (case options of None \<Rightarrow> None | Some opts \<Rightarrow> TlsConfig opts) :: 'a event"
  have d: "dial_call hook = (TlsDial ''tcp'' (region @ ''.data.logs.insight.rapid7.com:443'')
                 (case options of None \<Rightarrow> None | Some opts \<Rightarrow> TlsConfig opts) :: 'a event)"
    using h by (simp add: dial_call_def address_def show_int_443 hostPostfix_def)
  show "let d = TlsDial ''tcp'' (region @ ''.data.logs.insight.rapid7.com:443'')
                 (case options of None \<Rightarrow> None | Some opts \<Rightarrow> TlsConfig opts)
       in (case fst (New env tok region options tr) of
            Inr hook \<Rightarrow>
              host hook = region @ ''.data.logs.insight.rapid7.com'' \<and> port hook = 443 \<and>
              network hook = ''tcp'' \<and> encrypt hook
          | Inl e \<Rightarrow>
              io_result env tr d = None \<and>
              io_result env (tr @ [d]) (ConnClose (length tr)) = Some e) \<and>
         (io_result env tr d = None \<longrightarrow>
          io_result env (tr @ [d]) (ConnClose (length tr)) = Some e' \<longrightarrow>
            New env tok region options tr =
              (Inl e', options, tr @ [d, ConnClose (length tr)])) \<and>
         (\<exists>hook. host hook = region @ ''.data.logs.insight.rapid7.com'' \<and> port hook = 443 \<and>
            network hook = ''tcp'' \<and> encrypt hook \<and>
            New env tok region options tr =
              (case io_result env tr d of
                 Some e \<Rightarrow> (Inr hook, options, tr @ [d])
               | None \<Rightarrow>
                   (case io_result env (tr @ [d]) (ConnClose (length tr)) of
                      Some e \<Rightarrow> Inl e
                    | None \<Rightarrow> Inr hook,
                    options, tr @ [d, ConnClose (length tr)])))"
    unfolding Let_def
  proof (intro conjI impI)
    show "case fst (New env tok region options tr) of
            Inr hook \<Rightarrow>
              host hook = region @ ''.data.logs.insight.rapid7.com'' \<and> port hook = 443 \<and>
              network hook = ''tcp'' \<and> encrypt hook
          | Inl e \<Rightarrow>
              io_result env tr ?d = None \<and>
              io_result env (tr @ [?d]) (ConnClose (length tr)) = Some e"
      using h(1-4) by (simp add: New_def r probe_cases d hostPostfix_def split: option.splits)
  next
    assume "io_result env tr ?d = None"
      and "io_result env (tr @ [?d]) (ConnClose (length tr)) = Some e'"
    then show "New env tok region options tr =
                 (Inl e', options, tr @ [?d, ConnClose (length tr)])"
      by (simp add: New_def r probe_cases d)
  next
    have "New env tok region options tr =
            (case io_result env tr ?d of
               Some e \<Rightarrow> (Inr hook, options, tr @ [?d])
             | None \<Rightarrow>
                 (case io_result env (tr @ [?d]) (ConnClose (length tr)) of
                    Some e \<Rightarrow> Inl e
                  | None \<Rightarrow> Inr hook,
                  options, tr @ [?d, ConnClose (length tr)]))"
      by (simp add: New_def r probe_cases d split: option.splits)
    with h(1-4) show "\<exists>hook. host hook = region @ ''.data.logs.insight.rapid7.com'' \<and>
            port hook = 443 \<and> network hook = ''tcp'' \<and> encrypt hook \<and>
            New env tok region options tr =
              (case io_result env tr ?d of
                 Some e \<Rightarrow> (Inr hook, options, tr @ [?d])
               | None \<Rightarrow>
                   (case io_result env (tr @ [?d]) (ConnClose (length tr)) of
                      Some e \<Rightarrow> Inl e
                    | None \<Rightarrow> Inr hook,
                    options, tr @ [?d, ConnClose (length tr)]))"
      by (auto simp: hostPostfix_def)
  qed
qed

text \<open>Claim C2 as stated fails: with a valid token and region and no hub override,
  construction fails when closing the probe connection fails.\<close>

theorem New_direct_counterexample:
  "New env_close_fails ''T1'' ''eu'' None [] =
     (Inl (LibError 2), None,
      [TlsDial ''tcp'' ''eu.data.logs.insight.rapid7.com:443'' None, ConnClose 0])"
  by (simp add: New_eval env_close_fails_def)

theorem New_direct_witness:
  "New env_ok [] ''eu'' None [] = (Inl MissingToken, None, []) \<and>
   New env_ok ''T1'' ''mars'' None [] = (Inl InvalidRegion, None, []) \<and>
   (case fst (New env_ok ''T1'' ''eu'' None []) of
      Inr hook \<Rightarrow> host hook = ''eu.data.logs.insight.rapid7.com'' \<and> port hook = 443 \<and>
              network hook = ''tcp'' \<and> encrypt hook
    | Inl e \<Rightarrow> False) \<and>
   io_result env_close_fails []
     (TlsDial ''tcp'' ''eu.data.logs.insight.rapid7.com:443'' None) = None \<and>
   io_result env_close_fails [TlsDial ''tcp'' ''eu.data.logs.insight.rapid7.com:443'' None]
     (ConnClose 0) = Some (LibError 2) \<and>
   New env_close_fails ''T1'' ''eu'' None [] =
     (Inl (LibError 2), None,
      [TlsDial ''tcp'' ''eu.data.logs.insight.rapid7.com:443'' None, ConnClose 0]) \<and>
   New env_dial_fails ''T1'' ''eu'' None [] =
     (Inr hook_eu, None, [TlsDial ''tcp'' ''eu.data.logs.insight.rapid7.com:443'' None])"
  using New_direct [of env_ok "''eu''" None "[]" "''T1''" "LibError 2"]
    New_direct [of env_ok "''mars''" None "[]" "''T1''" "LibError 2"]
    New_direct [of env_close_fails "''eu''" None "[]" "''T1''" "LibError 2"]
    New_direct [of env_dial_fails "''eu''" None "[]" "''T1''" "LibError 2"]
  by (simp add: New_eval env_ok_def env_close_fails_def env_dial_fails_def hook_eu_def)

subsection \<open>New: the hub override\<close>

text \<open>Claim C3, as amended. For every call to \<^verbatim>\<open>New\<close> with a non-empty token, a region
  of eu or us and a hub override: an empty Host fails with MissingHubHost; otherwise
  \<^verbatim>\<open>New\<close> returns either a hook whose transport is the override's Type when that is tcp or
  udp and tcp otherwise, whose port is the override's Port when that is 80, 514 or 10000
  and 514 otherwise, which is unencrypted and whose host is the override's Host (the
  probe dials that host, the region's host is not used), or, when the probe connection
  was opened and its \<^verbatim>\<open>Close\<close> failed, that error and no hook: a failed \<^verbatim>\<open>Close\<close> of the
  probe always gives the error, and nothing else keeps the hook from being returned.\<close>

theorem New_hub:
  assumes "tok \<noteq> []" and "region = ''eu'' \<or> region = ''us''" and "DatahubConfig opts = Some dh"
  shows "(Host dh = [] \<longrightarrow>
            New env tok region (Some opts) tr = (Inl MissingHubHost, Some opts, tr)) \<and>
         (Host dh \<noteq> [] \<longrightarrow>
            (let nw = (if Type dh = ''tcp'' \<or> Type dh = ''udp'' then Type dh else ''tcp'');
                 p = (if Port dh = 80 \<or> Port dh = 514 \<or> Port dh = 10000 then Port dh else 514);
                 d = NetDial nw (Host dh @ '':'' @ show_int p)
             in (case fst (New env tok region (Some opts) tr) of
                  Inr hook \<Rightarrow>
                    network hook = nw \<and> port hook = p \<and> \<not> encrypt hook \<and>
                    host hook = Host dh \<and> tlsConfig hook = None
                | Inl e \<Rightarrow>
                    io_result env tr d = None \<and>
                    io_result env (tr @ [d]) (ConnClose (length tr)) = Some e) \<and>
                (io_result env tr d = None \<longrightarrow>
                 io_result env (tr @ [d]) (ConnClose (length tr)) = Some e' \<longrightarrow>
                   fst (New env tok region (Some opts) tr) = Inl e' \<and>
                   snd (snd (New env tok region (Some opts) tr)) =
                     tr @ [d, ConnClose (length tr)]) \<and>
                (\<exists>hook. network hook = nw \<and> port hook = p \<and> \<not> encrypt hook \<and>
                   host hook = Host dh \<and> tlsConfig hook = None \<and>
                   fst (New env tok region (Some opts) tr) =
                     (case io_result env tr d of
                        Some e \<Rightarrow> Inr hook
                      | None \<Rightarrow>
                          (case io_result env (tr @ [d]) (ConnClose (length tr)) of
                             Some e \<Rightarrow> Inl e
                           | None \<Rightarrow> Inr hook)) \<and>
                   snd (snd (New env tok region (Some opts) tr)) =
                     (case io_result env tr d of
                        Some e \<Rightarrow> tr @ [d]
                      | None \<Rightarrow> tr @ [d, ConnClose (length tr)]))))"
proof (intro conjI impI)
  assume "Host dh = []"
  with assms show "New env tok region (Some opts) tr = (Inl MissingHubHost, Some opts, tr)"
    by (simp add: New_def resolve_hub_no_host)
next
  assume nonempty: "Host dh \<noteq> []"
  from resolve_hub [OF assms(1,2) refl assms(3) nonempty] obtain hook where
    r: "resolve tok region (Some opts) =
          (Inr hook, Some (opts\<lparr>DatahubConfig := Some (default_hub dh)\<rparr>))" and
    h: "host hook = Host dh" "port hook = Port (default_hub dh)"
       "network hook = Type (default_hub dh)" "\<not> encrypt hook" "tlsConfig hook = None"
    by blast
  have d: "(dial_call hook :: 'a event) =
             NetDial (Type (default_hub dh)) (Host dh @ '':'' @ show_int (Port (default_hub dh)))"
    using h by (simp add: dial_call_def address_def)
  have t: "Type (default_hub dh) = (if Type dh = ''tcp'' \<or> Type dh = ''udp'' then Type dh else ''tcp'')"
    and p: "Port (default_hub dh) =
              (if Port dh = 80 \<or> Port dh = 514 \<or> Port dh = 10000 then Port dh else 514)"
    by (simp_all add: default_hub_eq)
  let ?d = "NetDial (Type (default_hub dh))
              (Host dh @ '':'' @ show_int (Port (default_hub dh))) :: 'a event"
  have full: "fst (New env tok region (Some opts) tr) =
                (case io_result env tr ?d of
                   Some e \<Rightarrow> Inr hook
                 | None \<Rightarrow>
                     (case io_result env (tr @ [?d]) (ConnClose (length tr)) of
                        Some e \<Rightarrow> Inl e
                      | None \<Rightarrow> Inr hook))"
    and steps: "snd (snd (New env tok region (Some opts) tr)) =
                  (case io_result env tr ?d of
                     Some e \<Rightarrow> tr @ [?d]
                   | None \<Rightarrow> tr @ [?d, ConnClose (length tr)])"
    by (simp_all add: New_def r probe_cases d split: option.splits)
  show "let nw = (if Type dh = ''tcp'' \<or> Type dh = ''udp'' then Type dh else ''tcp'');
            p = (if Port dh = 80 \<or> Port dh = 514 \<or> Port dh = 10000 then Port dh else 514);
            d = NetDial nw (Host dh @ '':'' @ show_int p)
        in (case fst (New env tok region (Some opts) tr) of
             Inr hook \<Rightarrow>
               network hook = nw \<and> port hook = p \<and> \<not> encrypt hook \<and>
               host hook = Host dh \<and> tlsConfig hook = None
           | Inl e \<Rightarrow>
               io_result env tr d = None \<and>
               io_result env (tr @ [d]) (ConnClose (length tr)) = Some e) \<and>
           (io_result env tr d = None \<longrightarrow>
            io_result env (tr @ [d]) (ConnClose (length tr)) = Some e' \<longrightarrow>
              fst (New env tok region (Some opts) tr) = Inl e' \<and>
              snd (snd (New env tok region (Some opts) tr)) =
                tr @ [d, ConnClose (length tr)]) \<and>
           (\<exists>hook. network hook = nw \<and> port hook = p \<and> \<not> encrypt hook \<and>
              host hook = Host dh \<and> tlsConfig hook = None \<and>
              fst (New env tok region (Some opts) tr) =
                (case io_result env tr d of
                   Some e \<Rightarrow> Inr hook
                 | None \<Rightarrow>
                     (case io_result env (tr @ [d]) (ConnClose (length tr)) of
                        Some e \<Rightarrow> Inl e
                      | None \<Rightarrow> Inr hook)) \<and>
              snd (snd (New env tok region (Some opts) tr)) =
                (case io_result env tr d of
                   Some e \<Rightarrow> tr @ [d]
                 | None \<Rightarrow> tr @ [d, ConnClose (length tr)]))"
    unfolding Let_def t [symmetric] p [symmetric]
    apply (intro conjI impI)
    subgoal using h by (simp add: full split: option.splits)
    subgoal by (simp add: full)
    subgoal by (simp add: steps)
    subgoal using h full steps by (intro exI [of _ hook]) simp
    done
qed

text \<open>Claim C3 as stated fails: with a hub override whose Host is empty and an empty
  token, construction fails with MissingToken, not MissingHubHost.\<close>

theorem New_hub_counterexample:
  "New env_ok [] ''eu'' (Some opts_no_host) [] = (Inl MissingToken, Some opts_no_host, []) \<and>
   DatahubConfig opts_no_host = Some \<lparr>Type = ''bogus'', Port = 9999, Host = []\<rparr> \<and>
   MissingToken \<noteq> MissingHubHost"
  by (simp add: New_eval opts_no_host_def)

theorem New_hub_witness:
  "New env_ok ''T1'' ''eu'' (Some opts_no_host) [] = (Inl MissingHubHost, Some opts_no_host, []) \<and>
   (case fst (New env_ok ''T1'' ''eu'' (Some opts_bogus_hub) []) of
      Inr hook \<Rightarrow> network hook = ''tcp'' \<and> port hook = 514 \<and> \<not> encrypt hook \<and>
                 host hook = ''localhost'' \<and> tlsConfig hook = None
    | Inl e \<Rightarrow> False) \<and>
   io_result env_close_fails [] (NetDial ''tcp'' ''localhost:514'') = None \<and>
   io_result env_close_fails [NetDial ''tcp'' ''localhost:514''] (ConnClose 0) =
     Some (LibError 2) \<and>
   fst (New env_close_fails ''T1'' ''eu'' (Some opts_bogus_hub) []) = Inl (LibError 2) \<and>
   snd (snd (New env_close_fails ''T1'' ''eu'' (Some opts_bogus_hub) [])) =
     [NetDial ''tcp'' ''localhost:514'', ConnClose 0] \<and>
   snd (snd (New env_dial_fails ''T1'' ''eu'' (Some opts_bogus_hub) [])) =
     [NetDial ''tcp'' ''localhost:514'']"
  using New_hub [of "''T1''" "''eu''" opts_no_host "\<lparr>Type = ''bogus'', Port = 9999, Host = []\<rparr>"
      env_ok "[]" "LibError 2"]
    New_hub [of "''T1''" "''eu''" opts_bogus_hub
      "\<lparr>Type = ''bogus'', Port = 9999, Host = ''localhost''\<rparr>" env_ok "[]" "LibError 2"]
    New_hub [of "''T1''" "''eu''" opts_bogus_hub
      "\<lparr>Type = ''bogus'', Port = 9999, Host = ''localhost''\<rparr>" env_close_fails "[]"
      "LibError 2"]
    New_hub [of "''T1''" "''eu''" opts_bogus_hub
      "\<lparr>Type = ''bogus'', Port = 9999, Host = ''localhost''\<rparr>" env_dial_fails "[]"
      "LibError 2"]
  by (simp add: New_eval env_ok_def env_close_fails_def env_dial_fails_def opts_no_host_def
      opts_bogus_hub_def)

subsection \<open>New: the level filter\<close>

text \<open>Claim C4, as amended. For every call to \<^verbatim>\<open>New\<close> that returns a hook: with no options the
  level filter is all seven severities; with options, it is the inclusive prefix of the
  fixed order (panic, fatal, error, warn, info, debug, trace) from panic through the
  threshold, where the threshold is the given Priority when that is within the range and
  info when it is above trace. A Priority above trace is not an error: \<^verbatim>\<open>New\<close> returns what
  it returns for Priority = info.\<close>

theorem New_levels:
  "(fst (New env tok region options tr) = Inr hook \<longrightarrow>
      (case options of
         None \<Rightarrow>
           levels hook =
             [PanicLevel, FatalLevel, ErrorLevel, WarnLevel, InfoLevel, DebugLevel, TraceLevel]
       | Some opts \<Rightarrow>
           (let thr = (if TraceLevel < Priority opts then InfoLevel else Priority opts)
            in levels hook = take (Suc (unat thr)) AllLevels \<and>
               levels hook = filter (\<lambda>l. l \<le> thr) AllLevels) \<and>
           (TraceLevel < Priority opts \<longrightarrow>
              levels hook = [PanicLevel, FatalLevel, ErrorLevel, WarnLevel, InfoLevel]))) \<and>
   (TraceLevel < Priority opts' \<longrightarrow>
      fst (New env tok region (Some opts') tr) =
      fst (New env tok region (Some (opts'\<lparr>Priority := InfoLevel\<rparr>)) tr))"
proof (intro conjI impI)
  assume "fst (New env tok region options tr) = Inr hook"
  then have r: "fst (resolve tok region options) = Inr hook"
    by (rule New_hook)
  show "case options of
         None \<Rightarrow>
           levels hook =
             [PanicLevel, FatalLevel, ErrorLevel, WarnLevel, InfoLevel, DebugLevel, TraceLevel]
       | Some opts \<Rightarrow>
           (let thr = (if TraceLevel < Priority opts then InfoLevel else Priority opts)
            in levels hook = take (Suc (unat thr)) AllLevels \<and>
               levels hook = filter (\<lambda>l. l \<le> thr) AllLevels) \<and>
           (TraceLevel < Priority opts \<longrightarrow>
              levels hook = [PanicLevel, FatalLevel, ErrorLevel, WarnLevel, InfoLevel])"
  proof (cases options)
    case None
    with resolve_levels [OF r] show ?thesis
      by (simp add: AllLevels_def)
  next
    case (Some opts)
    have l: "levels hook = take (unat (clamp_priority (Priority opts) + 1)) AllLevels"
      using resolve_levels [OF r] Some by simp
    have c: "clamp_priority (Priority opts) =
               (if TraceLevel < Priority opts then InfoLevel else Priority opts)"
      by (rule clamp_priority_eq)
    define thr where "thr = (if TraceLevel < Priority opts then InfoLevel else Priority opts)"
    have thr_le: "thr \<le> TraceLevel"
      using clamp_priority_le [of "Priority opts"] by (simp add: c thr_def)
    have l': "levels hook = take (unat (thr + 1)) AllLevels"
      using l by (simp add: c thr_def)
    have p1: "levels hook = take (Suc (unat thr)) AllLevels"
      and p2: "levels hook = filter (\<lambda>l. l \<le> thr) AllLevels"
      using levels_prefix [OF thr_le] l' by simp_all
    have p3: "levels hook = [PanicLevel, FatalLevel, ErrorLevel, WarnLevel, InfoLevel]"
      if "TraceLevel < Priority opts"
      using that l' by (simp add: thr_def AllLevels_def Level_defs)
    from p1 p2 p3 show ?thesis
      unfolding Some option.case Let_def thr_def by blast
  qed
next
  assume "TraceLevel < Priority opts'"
  then show "fst (New env tok region (Some opts') tr) =
             fst (New env tok region (Some (opts'\<lparr>Priority := InfoLevel\<rparr>)) tr)"
    by (simp add: New_result resolve_priority_default)
qed

text \<open>Claim C4 as stated fails: with no options supplied the filter is not "info or more
  severe", it holds debug and trace as well.\<close>

theorem New_levels_counterexample:
  "(case fst (New env_ok ''T1'' ''eu'' None []) of
      Inr hook \<Rightarrow>
        levels hook =
          [PanicLevel, FatalLevel, ErrorLevel, WarnLevel, InfoLevel, DebugLevel, TraceLevel] \<and>
        levels hook \<noteq> [PanicLevel, FatalLevel, ErrorLevel, WarnLevel, InfoLevel]
    | Inl e \<Rightarrow> False)"
  by (simp add: New_eval env_ok_def)

theorem New_levels_witness:
  "fst (New env_ok ''T1'' ''eu'' None []) = Inr hook_eu \<and>
   levels hook_eu =
     [PanicLevel, FatalLevel, ErrorLevel, WarnLevel, InfoLevel, DebugLevel, TraceLevel] \<and>
   (case fst (New env_ok ''T1'' ''eu'' (Some opts_out_of_range) []) of
      Inr hook \<Rightarrow> levels hook = [PanicLevel, FatalLevel, ErrorLevel, WarnLevel, InfoLevel]
    | Inl e \<Rightarrow> False) \<and>
   (case fst (New env_ok ''T1'' ''eu'' (Some opts_error) []) of
      Inr hook \<Rightarrow> levels hook = [PanicLevel, FatalLevel, ErrorLevel]
    | Inl e \<Rightarrow> False) \<and>
   TraceLevel < Priority opts_out_of_range \<and>
   fst (New env_ok ''T1'' ''eu'' (Some opts_out_of_range) []) =
   fst (New env_ok ''T1'' ''eu'' (Some (opts_out_of_range\<lparr>Priority := InfoLevel\<rparr>)) [])"
  using New_levels [of env_ok "''T1''" "''eu''" None "[]" hook_eu opts_out_of_range]
    New_levels [of env_ok "''T1''" "''eu''" "Some opts_out_of_range" "[]"
      "projr (fst (New env_ok ''T1'' ''eu'' (Some opts_out_of_range) []))" opts_out_of_range]
    New_levels [of env_ok "''T1''" "''eu''" "Some opts_error" "[]"
      "projr (fst (New env_ok ''T1'' ''eu'' (Some opts_error) []))" opts_out_of_range]
  by (simp add: New_eval env_ok_def hook_eu_def opts_out_of_range_def opts_error_def)

subsection \<open>New: the probe connection\<close>



subsection \<open>Fire: serialization, then write\<close>

text \<open>Claim C6. If the formatter fails, \<^verbatim>\<open>Fire\<close> writes the failure to the error stream and
  returns that error; nothing else happens: no dial, no write, the pool is untouched. If
  the formatter succeeds, \<^verbatim>\<open>Fire\<close> calls \<^verbatim>\<open>write\<close> with the line; when \<^verbatim>\<open>write\<close> returns an
  error, \<^verbatim>\<open>Fire\<close> writes it to the error stream and returns \<^verbatim>\<open>nil\<close>, as it does when
  \<^verbatim>\<open>write\<close> succeeds. On a hook whose pool was not shut down \<^verbatim>\<open>write\<close> does return.\<close>

theorem Fire_delegates:
  "(json_format env (formatter hook) entry = Inl e \<longrightarrow>
      Fire env entry hook tr = (Returns (Some e), hook, tr @ [StderrReadFail e entry])) \<and>
   (json_format env (formatter hook) entry = Inr line \<longrightarrow>
      Fire env entry hook tr =
        (case write_line env line hook tr of
           (Returns None, hook', tr') \<Rightarrow> (Returns None, hook', tr')
         | (Returns (Some e'), hook', tr') \<Rightarrow>
             (Returns None, hook', tr' @ [StderrWriteFail e' line])
         | (Panics p, hook', tr') \<Rightarrow> (Panics p, hook', tr'))) \<and>
   (hook_inv hook \<and> \<not> ch_closed (pool hook) \<longrightarrow>
      (\<exists>r hook' tr'. write_line env line hook tr = (Returns r, hook', tr')))"
proof (intro conjI impI)
  assume "json_format env (formatter hook) entry = Inl e"
  then show "Fire env entry hook tr = (Returns (Some e), hook, tr @ [StderrReadFail e entry])"
    by (simp add: Fire_def format_def)
next
  assume "json_format env (formatter hook) entry = Inr line"
  then show "Fire env entry hook tr =
        (case write_line env line hook tr of
           (Returns None, hook', tr') \<Rightarrow> (Returns None, hook', tr')
         | (Returns (Some e'), hook', tr') \<Rightarrow>
             (Returns None, hook', tr' @ [StderrWriteFail e' line])
         | (Panics p, hook', tr') \<Rightarrow> (Panics p, hook', tr'))"
    by (simp add: Fire_def format_def split: prod.splits outcome.splits option.splits)
next
  assume "hook_inv hook \<and> \<not> ch_closed (pool hook)"
  then show "\<exists>r hook' tr'. write_line env line hook tr = (Returns r, hook', tr')"
    using write_line_returns [of hook env line tr] by blast
qed

theorem Fire_delegates_witness:
  "json_format env_format_fails (formatter hook_pooled) ''hello'' = Inl (LibError 5) \<and>
   Fire env_format_fails ''hello'' hook_pooled [] =
     (Returns (Some (LibError 5)), hook_pooled, [StderrReadFail (LibError 5) ''hello'']) \<and>
   json_format env_write_fails (formatter hook_pooled) ''hello'' = Inr ''hello'' \<and>
   write_line env_write_fails ''hello'' hook_pooled [] =
     (Returns (Some (LibError 4)), hook_pooled\<lparr>pool := (pool hook_pooled)\<lparr>ch_buf := [Conn 5]\<rparr>\<rparr>,
      [ConnWrite 0 ''T1hello'', ConnClose 0]) \<and>
   Fire env_write_fails ''hello'' hook_pooled [] =
     (Returns None, hook_pooled\<lparr>pool := (pool hook_pooled)\<lparr>ch_buf := [Conn 5]\<rparr>\<rparr>,
      [ConnWrite 0 ''T1hello'', ConnClose 0, StderrWriteFail (LibError 4) ''hello'']) \<and>
   hook_inv hook_pooled \<and> ch_closed (pool hook_pooled) = False"
proof -
  have w: "write_line env_write_fails ''hello'' hook_pooled [] =
     (Returns (Some (LibError 4)), hook_pooled\<lparr>pool := (pool hook_pooled)\<lparr>ch_buf := [Conn 5]\<rparr>\<rparr>,
      [ConnWrite 0 ''T1hello'', ConnClose 0])"
    by (simp add: write_line_def getConn_def conn_Write_live conn_Close_live hook_eval
        env_write_fails_def)
  have h: "hook_inv hook_pooled" "ch_closed (pool hook_pooled) = False"
    by (simp_all add: hook_eval)
  from Fire_delegates [of env_format_fails hook_pooled "''hello''" "LibError 5" "[]" "''hello''"]
    Fire_delegates [of env_write_fails hook_pooled "''hello''" "LibError 5" "[]" "''hello''"]
    w h
  show ?thesis
    by (simp add: env_format_fails_def env_write_fails_def)
qed

subsection \<open>write\<close>

text \<open>Claim C7, as amended. For every payload, \<^verbatim>\<open>write\<close> makes one checkout. If the checkout
  fails (the pool is empty and the dial fails), \<^verbatim>\<open>write\<close> returns the dial error and writes
  nothing. If the checkout yields a connection, \<^verbatim>\<open>write\<close> makes a single \<^verbatim>\<open>Write\<close> on it,
  whose bytes are exactly the token followed by the line; on a write error it closes
  that connection and returns the error, with no second attempt and with the pool as the
  checkout left it; on success it checks the connection back in, which then waits in the
  pool. (On a pool that was shut down the checkout yields \<^verbatim>\<open>nil\<close> and the \<^verbatim>\<open>Write\<close>
  panics.)\<close>

theorem write_line_single_write:
  assumes "hook_inv hook"
  shows "(getConn env hook tr = (Inl e, hook1, tr1) \<longrightarrow>
            write_line env line hook tr = (Returns (Some e), hook1, tr1) \<and>
            hook1 = hook \<and> tr1 = tr @ [dial_call hook]) \<and>
         (getConn env hook tr = (Inr (Conn c), hook1, tr1) \<longrightarrow>
            write_line env line hook tr =
              (case io_result env tr1 (ConnWrite c (token hook @ line)) of
                 Some e \<Rightarrow>
                   (Returns (Some e), hook1,
                    tr1 @ [ConnWrite c (token hook @ line), ConnClose c])
               | None \<Rightarrow>
                   (Returns None,
                    hook1\<lparr>pool := (pool hook1)\<lparr>ch_buf := ch_buf (pool hook1) @ [Conn c]\<rparr>\<rparr>,
                    tr1 @ [ConnWrite c (token hook @ line), MutexLock, MutexUnlock]))) \<and>
         (getConn env hook tr = (Inr NilConn, hook1, tr1) \<longrightarrow>
            write_line env line hook tr = (Panics nil_deref, hook1, tr1))"
  using write_line_dial_error [of env hook tr e hook1 tr1 line]
    write_line_live [OF assms, of env tr c hook1 tr1 line]
    write_line_nil [of env hook tr hook1 tr1 line]
  by blast

text \<open>Claim C7 as stated fails: with an empty pool and a failing dial, \<^verbatim>\<open>write\<close> checks
  out no connection and performs no write at all; it returns the dial error.\<close>

theorem write_line_single_write_counterexample:
  "write_line env_dial_fails ''hello'' hook_eu [] =
     (Returns (Some (LibError 3)), hook_eu,
      [TlsDial ''tcp'' ''eu.data.logs.insight.rapid7.com:443'' None]) \<and>
   filter is_write [TlsDial ''tcp'' ''eu.data.logs.insight.rapid7.com:443'' None :: string event] = []"
  by (simp add: write_line_def getConn_def netConnect_def dial_call_def address_def show_int_443
      hook_eval env_dial_fails_def)

theorem write_line_single_write_witness:
  "hook_inv hook_pooled \<and>
   getConn env_ok hook_pooled [] =
     (Inr (Conn 0), hook_pooled\<lparr>pool := (pool hook_pooled)\<lparr>ch_buf := [Conn 5]\<rparr>\<rparr>, []) \<and>
   write_line env_ok ''hello'' hook_pooled [] =
     (Returns None, hook_pooled\<lparr>pool := (pool hook_pooled)\<lparr>ch_buf := [Conn 5, Conn 0]\<rparr>\<rparr>,
      [ConnWrite 0 ''T1hello'', MutexLock, MutexUnlock]) \<and>
   write_line env_write_fails ''hello'' hook_pooled [] =
     (Returns (Some (LibError 4)), hook_pooled\<lparr>pool := (pool hook_pooled)\<lparr>ch_buf := [Conn 5]\<rparr>\<rparr>,
      [ConnWrite 0 ''T1hello'', ConnClose 0]) \<and>
   getConn env_dial_fails hook_eu [] =
     (Inl (LibError 3), hook_eu, [TlsDial ''tcp'' ''eu.data.logs.insight.rapid7.com:443'' None]) \<and>
   write_line env_dial_fails ''hello'' hook_eu [] =
     (Returns (Some (LibError 3)), hook_eu,
      [TlsDial ''tcp'' ''eu.data.logs.insight.rapid7.com:443'' None]) \<and>
   getConn env_ok hook_closed [] = (Inr NilConn, hook_closed, []) \<and>
   write_line env_ok ''hello'' hook_closed [] = (Panics nil_deref, hook_closed, [])"
proof -
  have h: "hook_inv hook_pooled" and h': "hook_inv hook_eu" and h'': "hook_inv hook_closed"
    by (simp_all add: hook_eval)
  have g: "getConn env_ok hook_pooled [] =
     (Inr (Conn 0), hook_pooled\<lparr>pool := (pool hook_pooled)\<lparr>ch_buf := [Conn 5]\<rparr>\<rparr>, [])"
    "getConn env_write_fails hook_pooled [] =
     (Inr (Conn 0), hook_pooled\<lparr>pool := (pool hook_pooled)\<lparr>ch_buf := [Conn 5]\<rparr>\<rparr>, [])"
    by (simp_all add: getConn_def hook_eval)
  have g': "getConn env_dial_fails hook_eu [] =
     (Inl (LibError 3), hook_eu, [TlsDial ''tcp'' ''eu.data.logs.insight.rapid7.com:443'' None])"
    by (simp add: getConn_def netConnect_def dial_call_def address_def show_int_443 hook_eval
        env_dial_fails_def)
  have g'': "getConn env_ok hook_closed [] = (Inr NilConn, hook_closed, [])"
    by (simp add: getConn_def hook_eval)
  from write_line_single_write [OF h, of env_ok "[]" undefined
      "hook_pooled\<lparr>pool := (pool hook_pooled)\<lparr>ch_buf := [Conn 5]\<rparr>\<rparr>" "[]" "''hello''" 0]
    write_line_single_write [OF h, of env_write_fails "[]" undefined
      "hook_pooled\<lparr>pool := (pool hook_pooled)\<lparr>ch_buf := [Conn 5]\<rparr>\<rparr>" "[]" "''hello''" 0]
    write_line_single_write [OF h', of env_dial_fails "[]" "LibError 3" hook_eu
      "[TlsDial ''tcp'' ''eu.data.logs.insight.rapid7.com:443'' None]" "''hello''" 0]
    write_line_single_write [OF h'', of env_ok "[]" undefined hook_closed "[]" "''hello''" 0]
    h g g' g''
  show ?thesis
    by (simp add: hook_eval env_ok_def env_write_fails_def)
qed

subsection \<open>The pool round trip\<close>

text \<open>Claim C8. A connection that was checked out and written to with success, checked in
  while fewer than \<open>poolSize\<close> (3) connections wait in the pool, is retained, and the next
  checkout returns a connection from the pool (the oldest one waiting) with no dial: the
  trace does not grow. A check-in while \<open>poolSize\<close> connections wait closes the connection
  at once and leaves the pool as it was.\<close>

theorem pool_round_trip:
  assumes "hook_inv hook"
  shows "(getConn env hook tr = (Inr c, hook1, tr1) \<and>
          conn_Write env c bytes tr1 = (Returns None, tr2) \<and>
          length (ch_buf (pool hook1)) < poolSize hook1 \<longrightarrow>
            (\<exists>c' cs. ch_buf (pool hook1) @ [c] = c' # cs \<and> c' \<noteq> NilConn \<and>
               putConn env c hook1 tr2 =
                 (Returns (), hook1\<lparr>pool := (pool hook1)\<lparr>ch_buf := c' # cs\<rparr>\<rparr>,
                  tr2 @ [MutexLock, MutexUnlock]) \<and>
               getConn env (hook1\<lparr>pool := (pool hook1)\<lparr>ch_buf := c' # cs\<rparr>\<rparr>)
                   (tr2 @ [MutexLock, MutexUnlock]) =
                 (Inr c', hook1\<lparr>pool := (pool hook1)\<lparr>ch_buf := cs\<rparr>\<rparr>,
                  tr2 @ [MutexLock, MutexUnlock]))) \<and>
         (poolSize hook \<le> length (ch_buf (pool hook)) \<longrightarrow>
            putConn env (Conn n) hook tr =
              (Returns (), hook, tr @ [MutexLock, ConnClose n, MutexUnlock]))"
proof (intro conjI impI)
  assume a: "getConn env hook tr = (Inr c, hook1, tr1) \<and>
             conn_Write env c bytes tr1 = (Returns None, tr2) \<and>
             length (ch_buf (pool hook1)) < poolSize hook1"
  then obtain k where c: "c = Conn k"
    using conn_Write_returns by blast
  with a have g: "getConn env hook tr = (Inr (Conn k), hook1, tr1)" by simp
  from getConn_live [OF assms g] have inv1: "hook_inv hook1"
    and opened: "\<not> ch_closed (pool hook1)"
    and spare: "length (ch_buf (pool hook1)) < ch_cap (pool hook1)"
    by simp_all
  obtain c' cs where split: "ch_buf (pool hook1) @ [c] = c' # cs"
    by (cases "ch_buf (pool hook1) @ [c]") auto
  have "c' \<in> set (ch_buf (pool hook1) @ [c])"
    by (simp add: split)
  with inv1 c have live: "c' \<noteq> NilConn"
    by (auto simp: hook_inv_def)
  have put: "putConn env c hook1 tr2 =
               (Returns (), hook1\<lparr>pool := (pool hook1)\<lparr>ch_buf := c' # cs\<rparr>\<rparr>,
                tr2 @ [MutexLock, MutexUnlock])"
    using putConn_spare [OF opened spare, of env c tr2] by (simp add: split)
  have get: "getConn env (hook1\<lparr>pool := (pool hook1)\<lparr>ch_buf := c' # cs\<rparr>\<rparr>)
                   (tr2 @ [MutexLock, MutexUnlock]) =
                 (Inr c', hook1\<lparr>pool := (pool hook1)\<lparr>ch_buf := cs\<rparr>\<rparr>,
                  tr2 @ [MutexLock, MutexUnlock])"
    by (simp add: getConn_def)
  from split live put get
  show "\<exists>c' cs. ch_buf (pool hook1) @ [c] = c' # cs \<and> c' \<noteq> NilConn \<and>
               putConn env c hook1 tr2 =
                 (Returns (), hook1\<lparr>pool := (pool hook1)\<lparr>ch_buf := c' # cs\<rparr>\<rparr>,
                  tr2 @ [MutexLock, MutexUnlock]) \<and>
               getConn env (hook1\<lparr>pool := (pool hook1)\<lparr>ch_buf := c' # cs\<rparr>\<rparr>)
                   (tr2 @ [MutexLock, MutexUnlock]) =
                 (Inr c', hook1\<lparr>pool := (pool hook1)\<lparr>ch_buf := cs\<rparr>\<rparr>,
                  tr2 @ [MutexLock, MutexUnlock])"
    by blast
next
  assume full: "poolSize hook \<le> length (ch_buf (pool hook))"
  with assms have "ch_buf (pool hook) \<noteq> []" and cap: "ch_cap (pool hook) \<le> length (ch_buf (pool hook))"
    by (auto simp: hook_inv_def)
  with assms have "\<not> ch_closed (pool hook)"
    by (auto simp: hook_inv_def)
  from putConn_full [OF this cap]
  show "putConn env (Conn n) hook tr =
          (Returns (), hook, tr @ [MutexLock, ConnClose n, MutexUnlock])" .
qed

theorem pool_round_trip_witness:
  "hook_inv hook_eu \<and>
   getConn env_ok hook_eu [] =
     (Inr (Conn 0), hook_eu, [TlsDial ''tcp'' ''eu.data.logs.insight.rapid7.com:443'' None]) \<and>
   conn_Write env_ok (Conn 0) ''T1hello''
       [TlsDial ''tcp'' ''eu.data.logs.insight.rapid7.com:443'' None] =
     (Returns None,
      [TlsDial ''tcp'' ''eu.data.logs.insight.rapid7.com:443'' None, ConnWrite 0 ''T1hello'']) \<and>
   length (ch_buf (pool hook_eu)) < poolSize hook_eu \<and>
   putConn env_ok (Conn 0) hook_eu
       [TlsDial ''tcp'' ''eu.data.logs.insight.rapid7.com:443'' None, ConnWrite 0 ''T1hello''] =
     (Returns (), hook_eu\<lparr>pool := (pool hook_eu)\<lparr>ch_buf := [Conn 0]\<rparr>\<rparr>,
      [TlsDial ''tcp'' ''eu.data.logs.insight.rapid7.com:443'' None, ConnWrite 0 ''T1hello'',
       MutexLock, MutexUnlock]) \<and>
   getConn env_ok (hook_eu\<lparr>pool := (pool hook_eu)\<lparr>ch_buf := [Conn 0]\<rparr>\<rparr>)
       [TlsDial ''tcp'' ''eu.data.logs.insight.rapid7.com:443'' None, ConnWrite 0 ''T1hello'',
        MutexLock, MutexUnlock] =
     (Inr (Conn 0), hook_eu\<lparr>pool := (pool hook_eu)\<lparr>ch_buf := []\<rparr>\<rparr>,
      [TlsDial ''tcp'' ''eu.data.logs.insight.rapid7.com:443'' None, ConnWrite 0 ''T1hello'',
       MutexLock, MutexUnlock]) \<and>
   hook_inv hook_full \<and> poolSize hook_full \<le> length (ch_buf (pool hook_full)) \<and>
   putConn env_ok (Conn 9) hook_full [] =
     (Returns (), hook_full, [MutexLock, ConnClose 9, MutexUnlock])"
proof -
  have h: "hook_inv hook_eu" and f: "hook_inv hook_full"
    by (simp_all add: hook_eval)
  have g: "getConn env_ok hook_eu [] =
     (Inr (Conn 0), hook_eu, [TlsDial ''tcp'' ''eu.data.logs.insight.rapid7.com:443'' None])"
    by (simp add: getConn_def netConnect_def dial_call_def address_def show_int_443 hook_eval
        env_ok_def)
  have w: "conn_Write env_ok (Conn 0) ''T1hello''
       [TlsDial ''tcp'' ''eu.data.logs.insight.rapid7.com:443'' None] =
     (Returns None,
      [TlsDial ''tcp'' ''eu.data.logs.insight.rapid7.com:443'' None, ConnWrite 0 ''T1hello''])"
    by (simp add: conn_Write_live env_ok_def)
  have l: "length (ch_buf (pool hook_eu)) < poolSize hook_eu"
    and m: "poolSize hook_full \<le> length (ch_buf (pool hook_full))"
    by (simp_all add: hook_eval)
  from pool_round_trip [OF h, of env_ok "[]" "Conn 0" hook_eu
      "[TlsDial ''tcp'' ''eu.data.logs.insight.rapid7.com:443'' None]" "''T1hello''"
      "[TlsDial ''tcp'' ''eu.data.logs.insight.rapid7.com:443'' None, ConnWrite 0 ''T1hello'']"]
    pool_round_trip [OF f, of env_ok "[]" "Conn 0" hook_eu "[]" "[]" "[]" 9]
    h f g w l m
  show ?thesis
    by (simp add: hook_eval)
qed

subsection \<open>FlushAndClose\<close>

text \<open>Claim C9. \<^verbatim>\<open>FlushAndClose\<close> takes the mutex, closes the channel, calls \<^verbatim>\<open>Close\<close> on
  every connection that was waiting in the pool, oldest first, and releases the mutex:
  afterwards the pool is closed and empty, every connection that was idle has been
  closed, and a later check-in is refused (the send panics, nothing is retained). On a
  pool that is already shut down there is nothing idle and the call panics.\<close>

theorem FlushAndClose_closes_idle:
  assumes "hook_inv hook"
  shows "FlushAndClose env hook tr =
           (if ch_closed (pool hook) then Panics close_of_closed else Returns (),
            hook\<lparr>pool := (pool hook)\<lparr>ch_buf := [], ch_closed := True\<rparr>\<rparr>,
            tr @ [MutexLock] @ map ConnClose (conn_ids (ch_buf (pool hook))) @ [MutexUnlock]) \<and>
         map Conn (conn_ids (ch_buf (pool hook))) = ch_buf (pool hook) \<and>
         putConn env c (hook\<lparr>pool := (pool hook)\<lparr>ch_buf := [], ch_closed := True\<rparr>\<rparr>) tr' =
           (Panics send_on_closed,
            hook\<lparr>pool := (pool hook)\<lparr>ch_buf := [], ch_closed := True\<rparr>\<rparr>,
            tr' @ [MutexLock, MutexUnlock])"
proof (intro conjI)
  from assms have live: "NilConn \<notin> set (ch_buf (pool hook))"
    and shut: "ch_closed (pool hook) \<Longrightarrow> ch_buf (pool hook) = []"
    by (simp_all add: hook_inv_def)
  show "FlushAndClose env hook tr =
           (if ch_closed (pool hook) then Panics close_of_closed else Returns (),
            hook\<lparr>pool := (pool hook)\<lparr>ch_buf := [], ch_closed := True\<rparr>\<rparr>,
            tr @ [MutexLock] @ map ConnClose (conn_ids (ch_buf (pool hook))) @ [MutexUnlock])"
  proof (cases "ch_closed (pool hook)")
    case True
    with shut show ?thesis
      by (simp add: FlushAndClose_def Let_def)
  next
    case False
    then show ?thesis
      by (simp add: FlushAndClose_def Let_def drain_live [OF live])
  qed
  show "map Conn (conn_ids (ch_buf (pool hook))) = ch_buf (pool hook)"
    using live by (rule conn_ids_live)
  show "putConn env c (hook\<lparr>pool := (pool hook)\<lparr>ch_buf := [], ch_closed := True\<rparr>\<rparr>) tr' =
           (Panics send_on_closed,
            hook\<lparr>pool := (pool hook)\<lparr>ch_buf := [], ch_closed := True\<rparr>\<rparr>,
            tr' @ [MutexLock, MutexUnlock])"
    by (rule putConn_closed) simp
qed

theorem FlushAndClose_closes_idle_witness:
  "hook_inv hook_pooled \<and>
   FlushAndClose env_ok hook_pooled [] =
     (Returns (),
      hook_eu\<lparr>pool := \<lparr>ch_buf = [], ch_cap = 3, ch_closed = True\<rparr>\<rparr>,
      [MutexLock, ConnClose 0, ConnClose 5, MutexUnlock])"
proof -
  have h: "hook_inv hook_pooled"
    by (simp add: hook_eval)
  from FlushAndClose_closes_idle [OF h, of env_ok "[]"] h show ?thesis
    by (simp add: hook_eval)
qed

subsection \<open>New: the caller's options after the call\<close>

text \<open>Claim C10, as amended. For every call to \<^verbatim>\<open>New\<close> that passes the token, region and
  hub Host checks, the caller's DatahubConfig is written in place: its Type becomes tcp
  when it was neither tcp nor udp, its Port becomes 514 when it was none of 80, 514 and
  10000, and nothing else of the options changes; so with such a Type or Port the
  caller's options are not what they were.\<close>

theorem New_overwrites_hub_options:
  assumes "tok \<noteq> []" and "region = ''eu'' \<or> region = ''us''"
    and "DatahubConfig opts = Some dh" and "Host dh \<noteq> []"
  shows "fst (snd (New env tok region (Some opts) tr)) =
           Some (opts\<lparr>DatahubConfig := Some (dh
             \<lparr>Type := (if Type dh = ''tcp'' \<or> Type dh = ''udp'' then Type dh else ''tcp''),
              Port := (if Port dh = 80 \<or> Port dh = 514 \<or> Port dh = 10000 then Port dh else 514)\<rparr>)\<rparr>) \<and>
         ((Type dh \<noteq> ''tcp'' \<and> Type dh \<noteq> ''udp'') \<or>
          (Port dh \<noteq> 80 \<and> Port dh \<noteq> 514 \<and> Port dh \<noteq> 10000) \<longrightarrow>
            fst (snd (New env tok region (Some opts) tr)) \<noteq> Some opts)"
proof -
  define dh' where "dh' = dh
             \<lparr>Type := (if Type dh = ''tcp'' \<or> Type dh = ''udp'' then Type dh else ''tcp''),
              Port := (if Port dh = 80 \<or> Port dh = 514 \<or> Port dh = 10000 then Port dh else 514)\<rparr>"
  from resolve_hub [OF assms(1,2) refl assms(3,4)]
  have "snd (resolve tok region (Some opts)) =
          Some (opts\<lparr>DatahubConfig := Some (default_hub dh)\<rparr>)"
    by auto
  then have after: "fst (snd (New env tok region (Some opts) tr)) =
                      Some (opts\<lparr>DatahubConfig := Some dh'\<rparr>)"
    by (simp add: New_options default_hub_eq dh'_def)
  have changed: "opts\<lparr>DatahubConfig := Some dh'\<rparr> \<noteq> opts"
    if bad: "(Type dh \<noteq> ''tcp'' \<and> Type dh \<noteq> ''udp'') \<or>
             (Port dh \<noteq> 80 \<and> Port dh \<noteq> 514 \<and> Port dh \<noteq> 10000)"
  proof
    assume "opts\<lparr>DatahubConfig := Some dh'\<rparr> = opts"
    then have "DatahubConfig (opts\<lparr>DatahubConfig := Some dh'\<rparr>) = DatahubConfig opts"
      by (rule arg_cong)
    with assms(3) have "dh' = dh" by simp
    then have "Type dh' = Type dh \<and> Port dh' = Port dh" by simp
    with bad show False by (auto simp: dh'_def split: if_splits)
  qed
  from after changed show ?thesis
    unfolding dh'_def by simp
qed

text \<open>Claim C10 as stated fails: a DatahubConfig with an invalid Type and Port and an
  empty Host is left as it was, since \<^verbatim>\<open>New\<close> returns before the defaults are written.\<close>

theorem New_overwrites_hub_options_counterexample:
  "fst (snd (New env_ok ''T1'' ''eu'' (Some opts_no_host) [])) = Some opts_no_host \<and>
   DatahubConfig opts_no_host = Some \<lparr>Type = ''bogus'', Port = 9999, Host = []\<rparr>"
  by (simp add: New_eval opts_no_host_def)

theorem New_overwrites_hub_options_witness:
  "fst (snd (New env_ok ''T1'' ''eu'' (Some opts_bogus_hub) [])) =
     Some \<lparr>Priority = 9, TlsConfig = None,
           DatahubConfig = Some \<lparr>Type = ''tcp'', Port = 514, Host = ''localhost''\<rparr>\<rparr> \<and>
   fst (snd (New env_ok ''T1'' ''eu'' (Some opts_bogus_hub) [])) \<noteq> Some opts_bogus_hub"
  using New_overwrites_hub_options [of "''T1''" "''eu''" opts_bogus_hub
       "\<lparr>Type = ''bogus'', Port = 9999, Host = ''localhost''\<rparr>" env_ok "[]"]
  by (simp add: opts_bogus_hub_def)

end
